theory Spec2Isabelle
  imports Complex_Main "HOL-Library.AList"
begin

section \<open>The remote-control server of webtorrent-remote\<close>

text \<open>
  The repository holds two versions of the server module. \<^verbatim>\<open>src/unnamed/part_000\<close> is the
  prototype-style version (it has the \<^verbatim>\<open>destroy\<close> message, \<^verbatim>\<open>killClients\<close>, the default
  heartbeat timeout and the callback-based \<^verbatim>\<open>createServer\<close>); its functions keep their
  source names here. \<^verbatim>\<open>src/server.js\<close> is the class-style version; where one of its
  functions differs, the embedding of that function carries the suffix \<open>_es6\<close>. Functions
  that are the same text in both files are embedded once.

  Conventions of the embedding.
  \<^item> A JavaScript object that is shared and mutated (a torrent) lives in a store
    \<open>heap\<close>, and the lists \<^verbatim>\<open>server._torrents\<close> and \<^verbatim>\<open>wt.torrents\<close> hold addresses.
  \<^item> \<^verbatim>\<open>server._clients\<close> and \<^verbatim>\<open>deadClientKeys\<close> are plain JavaScript objects used as
    dictionaries. The own properties of \<^verbatim>\<open>server._clients\<close> are an association list in
    insertion order; a lookup \<^verbatim>\<open>obj[key]\<close> that finds no own property goes on to the
    properties every object inherits from \<^verbatim>\<open>Object.prototype\<close>, and \<^verbatim>\<open>for ... in\<close> visits the
    keys in JavaScript's order; both are written out below. Client keys are strings.
  \<^item> \<^verbatim>\<open>new Date().getTime()\<close> is the argument \<open>now\<close>.
  \<^item> Everything the server does to the outside (\<^verbatim>\<open>server._send\<close>, the console, calls
    into the engine, timers) is appended to the log \<open>effects\<close>.
  \<^item> A thrown exception is the first component of the result, \<open>Some e\<close>; the state
    that comes with it holds the mutations made before the throw.
  \<^item> \<^verbatim>\<open>parseTorrent\<close> belongs to the package parse-torrent and is an argument of every
    function that calls it: it either throws or returns a parsed identifier.
\<close>

subsection \<open>Values and messages\<close>

type_synonym addr = nat
type_synonym jsnum = real

datatype exn = Error string | TypeError string

datatype 'a field = Absent | Null | Present 'a

text \<open>A subscription \<^verbatim>\<open>{clientKey, torrentKey}\<close>; an inbound message extends it.\<close>

record keys =
  clientKey :: string
  torrentKey :: string

text \<open>
  \<^verbatim>\<open>message.options\<close>: \<open>o_server\<close> is the truthiness of \<^verbatim>\<open>options.server\<close>, \<open>o_delay\<close> the
  number \<^verbatim>\<open>options.delay\<close> when present. What else the object holds is handed to the
  engine unread.
\<close>

record message_options =
  o_server :: bool
  o_delay :: "nat option"

record message = keys +
  m_type :: string
  m_torrentID :: "string option"
  m_options :: "message_options option"

record parsed =
  pt_infoHash :: "string option"
  pt_name :: "string option"

type_synonym parser = "string option \<Rightarrow> exn + parsed"

record torrent_file =
  f_name :: string
  f_length :: jsnum

text \<open>
  The payloads of outbound messages. \<open>i_key\<close> is \<open>None\<close> where the object has no
  \<^verbatim>\<open>key\<close> property (part_000) and \<open>Some v\<close> where it has one (server.js).
\<close>

record info =
  i_key :: "string option option"
  i_name :: "string option"
  i_infohash :: "string option"
  i_length :: "jsnum option"
  i_serverURL :: "string option"
  i_files :: "torrent_file list"

record progress =
  pr_progress :: jsnum
  pr_downloaded :: jsnum
  pr_uploaded :: jsnum
  pr_length :: "jsnum option"
  pr_downloadSpeed :: jsnum
  pr_uploadSpeed :: jsnum
  pr_ratio :: jsnum
  pr_numPeers :: jsnum
  pr_timeRemaining :: jsnum

datatype torrent_payload = Info info | Progress progress | Snapshot info progress

record error_payload =
  e_message :: string
  e_stack :: "string option"

record outmsg =
  o_type :: string
  o_torrent :: "torrent_payload field"
  o_error :: "error_payload option"
  o_serverURL :: "string option"
  o_clientKey :: "string option"
  o_torrentKey :: "string option"

subsection \<open>Torrents, closures, effects and the server state\<close>

text \<open>
  The callbacks queued by \<^verbatim>\<open>createServer\<close> (part_000) are the two closures the source
  builds: the one of \<^verbatim>\<open>handleCreateServer\<close> and \<^verbatim>\<open>respond\<close> of \<^verbatim>\<open>handleAddTorrent\<close>.
\<close>

datatype callback = ServerReadyCb addr string string | RespondCb addr string string

record torrent =
  t_key :: "string option"
  t_name :: "string option"
  t_infoHash :: "string option"
  t_length :: "jsnum option"
  t_files :: "torrent_file list option"
  t_progress :: jsnum
  t_downloaded :: jsnum
  t_uploaded :: jsnum
  t_downloadSpeed :: jsnum
  t_uploadSpeed :: jsnum
  t_ratio :: jsnum
  t_numPeers :: jsnum
  t_timeRemaining :: jsnum
  t_destroyed :: bool
  t_clients :: "keys list"
  t_serverURL :: "string option"
  t_pendingServerCallbacks :: "callback list option"
  t_pendingHttpClients :: "keys list option"

datatype diag =
    AddingClient string
  | IgnoringUnknownMessageType message
  | SkippingHeartbeat string
  | JoiningSwarm "string option" "string option"
  | DestroyingClient string
  | TorrentClientDied string
  | TorrentDestroyed "string option"
  | TorrentDestoyed "string option" "string option"
  | InstanceDestroyed

datatype effect =
    Send outmsg
  | ConsoleError diag
  | ConsoleLog diag
  | NewWebTorrent
  | WtAdd addr
  | TorrentDestroy addr
  | WtDestroy
  | CreateServer addr
  | Listen addr
  | SetTimeout string nat
  | SetInterval nat

record server_options =
  updateInterval :: "nat option"
  heartbeatTimeout :: "int option"
  trace :: bool

record webtorrent_instance =
  wt_torrents :: "addr list"

record client =
  c_clientKey :: string
  heartbeat :: int

record server =
  s_options :: server_options
  s_webtorrent :: "webtorrent_instance option"
  s_clients :: "(string \<times> client) list"
  s_torrents :: "addr list"
  heap :: "addr \<Rightarrow> torrent"
  next_addr :: addr
  effects :: "effect list"
  proto_heartbeat :: "int option"

definition emit :: "effect \<Rightarrow> server \<Rightarrow> server" where
  "emit e s = s\<lparr>effects := effects s @ [e]\<rparr>"

text \<open>\<^verbatim>\<open>server._send(message)\<close>.\<close>

definition send :: "outmsg \<Rightarrow> server \<Rightarrow> server" where
  "send m s = emit (Send m) s"

definition trace_log :: "diag \<Rightarrow> server \<Rightarrow> server" where
  "trace_log d s = (if trace (s_options s) then emit (ConsoleLog d) s else s)"

definition upd_torrent :: "addr \<Rightarrow> (torrent \<Rightarrow> torrent) \<Rightarrow> server \<Rightarrow> server" where
  "upd_torrent a f s = s\<lparr>heap := (heap s)(a := f (heap s a))\<rparr>"

text \<open>JavaScript truthiness of a string-valued property: absent and empty are falsy.\<close>

definition truthy :: "string option \<Rightarrow> bool" where
  "truthy v = (case v of None \<Rightarrow> False | Some u \<Rightarrow> u \<noteq> [])"

fun show_nat :: "nat \<Rightarrow> string" where
  "show_nat n =
     (if n < 10 then [char_of (48 + n)]
      else show_nat (n div 10) @ [char_of (48 + n mod 10)])"

subsection \<open>Plain objects as dictionaries\<close>

text \<open>
  The names of the properties every object inherits from \<^verbatim>\<open>Object.prototype\<close>. All of them
  are functions, but \<^verbatim>\<open>__proto__\<close>, which is an accessor that yields \<^verbatim>\<open>Object.prototype\<close>
  itself. None of them is enumerable.
\<close>

definition inherited :: "string \<Rightarrow> bool" where
  "inherited k \<longleftrightarrow>
     k \<in> set [''constructor'', ''__defineGetter__'', ''__defineSetter__'', ''hasOwnProperty'',
               ''__lookupGetter__'', ''__lookupSetter__'', ''isPrototypeOf'',
               ''propertyIsEnumerable'', ''toString'', ''valueOf'', ''__proto__'',
               ''toLocaleString'']"

text \<open>
  \<open>proto_heartbeat\<close> in the state is the property \<^verbatim>\<open>heartbeat\<close> of \<^verbatim>\<open>Object.prototype\<close>. It does
  not exist at first; \<open>handleHeartbeat\<close> creates it when the client key of a heartbeat is
  \<^verbatim>\<open>__proto__\<close>, and from then on every object inherits it, as an enumerable property.

  \<open>clients_get\<close> is the value of \<^verbatim>\<open>server._clients[k]\<close>: the own entry, or else what the
  object inherits under that name.
\<close>

datatype jsval =
    OwnEntry client
  | InheritedFunction
  | TheObjectPrototype
  | InheritedNumber int
  | JsUndefined

definition clients_get :: "server \<Rightarrow> string \<Rightarrow> jsval" where
  "clients_get s k =
     (case map_of (s_clients s) k of
        Some c \<Rightarrow> OwnEntry c
      | None \<Rightarrow>
          if k = ''__proto__'' then TheObjectPrototype
          else if inherited k then InheritedFunction
          else if k = ''heartbeat''
          then (case proto_heartbeat s of Some h \<Rightarrow> InheritedNumber h | None \<Rightarrow> JsUndefined)
          else JsUndefined)"

fun js_truthy :: "jsval \<Rightarrow> bool" where
  "js_truthy (OwnEntry c) = True"
| "js_truthy InheritedFunction = True"
| "js_truthy TheObjectPrototype = True"
| "js_truthy (InheritedNumber h) = (h \<noteq> 0)"
| "js_truthy JsUndefined = False"

text \<open>
  The truthiness of \<^verbatim>\<open>deadClientKeys[k]\<close>, where \<^verbatim>\<open>deadClientKeys\<close> is a fresh \<^verbatim>\<open>{}\<close> to which
  \<^verbatim>\<open>deadClientKeys[key] = true\<close> was applied for every key of the list: true for the keys of
  the list, and also for every inherited name and, once \<^verbatim>\<open>Object.prototype.heartbeat\<close> is a
  non-zero number, for \<^verbatim>\<open>heartbeat\<close>.
\<close>

definition dead_key :: "int option \<Rightarrow> string list \<Rightarrow> string \<Rightarrow> bool" where
  "dead_key ph deadClientKeys k \<longleftrightarrow>
     k \<in> set deadClientKeys \<or> inherited k \<or>
     (k = ''heartbeat'' \<and> (case ph of Some h \<Rightarrow> h \<noteq> 0 | None \<Rightarrow> False))"

text \<open>
  The order of \<^verbatim>\<open>for (key in server._clients)\<close>: the own keys that are array indices (the
  decimal numerals of the numbers below \<open>2^32 - 1\<close>, without leading zero) in ascending
  numeric order, then the other own keys in insertion order, then the enumerable
  inherited key \<^verbatim>\<open>heartbeat\<close> if \<^verbatim>\<open>Object.prototype\<close> has it and no own key shadows it.
\<close>

definition digit_of :: "char \<Rightarrow> nat option" where
  "digit_of c = map_of (zip ''0123456789'' [0, 1, 2, 3, 4, 5, 6, 7, 8, 9]) c"

fun digits_value :: "string \<Rightarrow> nat \<Rightarrow> nat option" where
  "digits_value [] acc = Some acc"
| "digits_value (c # cs) acc =
     (case digit_of c of None \<Rightarrow> None | Some d \<Rightarrow> digits_value cs (10 * acc + d))"

definition array_index :: "string \<Rightarrow> nat option" where
  "array_index k =
     (case k of
        [] \<Rightarrow> None
      | c # cs \<Rightarrow>
          if c = CHR ''0'' \<and> cs \<noteq> [] then None
          else (case digits_value k 0 of
                  None \<Rightarrow> None
                | Some n \<Rightarrow> if n < 4294967295 then Some n else None))"

definition index_keys :: "string list \<Rightarrow> (nat \<times> string) list" where
  "index_keys ks =
     concat (map (\<lambda>k. case array_index k of None \<Rightarrow> [] | Some n \<Rightarrow> [(n, k)]) ks)"

definition own_keys :: "server \<Rightarrow> string list" where
  "own_keys s =
     (let ks = map fst (s_clients s)
      in map snd (sort_key fst (index_keys ks)) @ filter (\<lambda>k. array_index k = None) ks)"

definition for_in_keys :: "server \<Rightarrow> string list" where
  "for_in_keys s =
     own_keys s @
       (if proto_heartbeat s \<noteq> None \<and> ''heartbeat'' \<notin> set (map fst (s_clients s))
        then [''heartbeat''] else [])"

text \<open>
  \<^verbatim>\<open>server._clients[k].heartbeat\<close> for a key \<^verbatim>\<open>for ... in\<close> visits: the heartbeat of the own
  entry; for the inherited key \<^verbatim>\<open>heartbeat\<close> the value is the number
  \<^verbatim>\<open>Object.prototype.heartbeat\<close>, and the property \<^verbatim>\<open>heartbeat\<close> of a number is inherited from
  \<^verbatim>\<open>Object.prototype\<close> again.
\<close>

definition client_heartbeat :: "server \<Rightarrow> string \<Rightarrow> int option" where
  "client_heartbeat s k =
     (case map_of (s_clients s) k of
        Some c \<Rightarrow> Some (heartbeat c)
      | None \<Rightarrow> proto_heartbeat s)"

subsection \<open>The engine boundary\<close>

text \<open>
  Modelled from the spec: the transfer engine (the package webtorrent) is not code of
  this repository; section 6 of the specification gives its boundary. A fresh
  engine has no torrents. \<open>wt_add\<close> is \<^verbatim>\<open>join(resourceId, options) -> handle\<close>: it
  allocates a torrent whose \<open>t_infoHash\<close> is the fingerprint obtained by parsing the
  identifier, and appends it to \<^verbatim>\<open>wt.torrents\<close>. \<open>torrent_destroy\<close> is
  \<^verbatim>\<open>handle.destroy()\<close>: it sets the flag \<^verbatim>\<open>destroyed\<close> the server reads and takes the
  torrent out of \<^verbatim>\<open>wt.torrents\<close>.
\<close>

definition new_torrent :: "string option \<Rightarrow> string option \<Rightarrow> torrent" where
  "new_torrent ih nm =
     \<lparr>t_key = None, t_name = nm, t_infoHash = ih, t_length = None, t_files = None,
      t_progress = 0, t_downloaded = 0, t_uploaded = 0, t_downloadSpeed = 0,
      t_uploadSpeed = 0, t_ratio = 0, t_numPeers = 0, t_timeRemaining = 0,
      t_destroyed = False, t_clients = [], t_serverURL = None,
      t_pendingServerCallbacks = None, t_pendingHttpClients = None\<rparr>"

definition wt_add :: "parser \<Rightarrow> string option \<Rightarrow> server \<Rightarrow> addr \<times> server" where
  "wt_add parseTorrent torrentID s =
     (let a = next_addr s;
          t = (case parseTorrent torrentID of
                 Inl e \<Rightarrow> new_torrent None None
               | Inr p \<Rightarrow> new_torrent (pt_infoHash p) (pt_name p))
      in (a, emit (WtAdd a)
               (s\<lparr>heap := (heap s)(a := t),
                  next_addr := Suc a,
                  s_webtorrent :=
                    map_option (\<lambda>wt. wt\<lparr>wt_torrents := wt_torrents wt @ [a]\<rparr>)
                      (s_webtorrent s)\<rparr>)))"

definition torrent_destroy :: "addr \<Rightarrow> server \<Rightarrow> server" where
  "torrent_destroy a s =
     emit (TorrentDestroy a)
       (s\<lparr>heap := (heap s)(a := (heap s a)\<lparr>t_destroyed := True\<rparr>),
          s_webtorrent :=
            map_option (\<lambda>wt. wt\<lparr>wt_torrents := removeAll a (wt_torrents wt)\<rparr>)
              (s_webtorrent s)\<rparr>)"

subsection \<open>Constructor and lazy engine creation (both files)\<close>

definition WebTorrentRemoteServer :: "server_options option \<Rightarrow> server" where
  "WebTorrentRemoteServer options =
     (let opts = (case options of
                    None \<Rightarrow> \<lparr>updateInterval = None, heartbeatTimeout = None, trace = False\<rparr>
                  | Some v \<Rightarrow> v);
          s = \<lparr>s_options = opts, s_webtorrent = None, s_clients = [], s_torrents = [],
               heap = (\<lambda>a. new_torrent None None), next_addr = 0, effects = [],
               proto_heartbeat = None\<rparr>;
          interval = (case updateInterval opts of None \<Rightarrow> 1000 | Some n \<Rightarrow> n)
      in if interval \<noteq> 0 then emit (SetInterval interval) s else s)"

definition webtorrent :: "server \<Rightarrow> webtorrent_instance \<times> server" where
  "webtorrent s =
     (case s_webtorrent s of
        None \<Rightarrow>
          (let wt = \<lparr>wt_torrents = []\<rparr>
           in (wt, emit NewWebTorrent (s\<lparr>s_webtorrent := Some wt\<rparr>)))
      | Some wt \<Rightarrow> (wt, s))"

subsection \<open>Building and sending messages\<close>

definition getInfoMessage :: "server \<Rightarrow> addr \<Rightarrow> string \<Rightarrow> outmsg" where
  "getInfoMessage server torrent type =
     (let t = heap server torrent in
      \<lparr>o_type = type,
       o_torrent = Present (Info
         \<lparr>i_key = None, i_name = t_name t, i_infohash = t_infoHash t,
          i_length = t_length t, i_serverURL = t_serverURL t,
          i_files = (case t_files t of None \<Rightarrow> [] | Some fs \<Rightarrow> fs)\<rparr>),
       o_error = None, o_serverURL = None, o_clientKey = None, o_torrentKey = None\<rparr>)"

definition getInfoMessage_es6 :: "server \<Rightarrow> addr \<Rightarrow> string \<Rightarrow> outmsg" where
  "getInfoMessage_es6 server torrent type =
     (let t = heap server torrent in
      \<lparr>o_type = type,
       o_torrent = Present (Info
         \<lparr>i_key = Some (t_key t), i_name = t_name t, i_infohash = t_infoHash t,
          i_length = t_length t, i_serverURL = t_serverURL t,
          i_files = (case t_files t of None \<Rightarrow> [] | Some fs \<Rightarrow> fs)\<rparr>),
       o_error = None, o_serverURL = None, o_clientKey = None, o_torrentKey = None\<rparr>)"

definition getProgressMessage :: "server \<Rightarrow> addr \<Rightarrow> string \<Rightarrow> outmsg" where
  "getProgressMessage server torrent type =
     (let t = heap server torrent in
      \<lparr>o_type = type,
       o_torrent = Present (Progress
         \<lparr>pr_progress = t_progress t, pr_downloaded = t_downloaded t,
          pr_uploaded = t_uploaded t, pr_length = t_length t,
          pr_downloadSpeed = t_downloadSpeed t, pr_uploadSpeed = t_uploadSpeed t,
          pr_ratio = t_ratio t, pr_numPeers = t_numPeers t,
          pr_timeRemaining = t_timeRemaining t\<rparr>),
       o_error = None, o_serverURL = None, o_clientKey = None, o_torrentKey = None\<rparr>)"

text \<open>\<^verbatim>\<open>Object.assign({}, message, client)\<close>: the subscription's two keys win.\<close>

definition assign_keys :: "outmsg \<Rightarrow> keys \<Rightarrow> outmsg" where
  "assign_keys message client =
     message\<lparr>o_clientKey := Some (clientKey client), o_torrentKey := Some (torrentKey client)\<rparr>"

definition sendToTorrentClients :: "server \<Rightarrow> addr \<Rightarrow> outmsg \<Rightarrow> server" where
  "sendToTorrentClients server torrent message =
     fold (\<lambda>client s. send (assign_keys message client) s)
       (t_clients (heap server torrent)) server"

definition sendToAllClients :: "server \<Rightarrow> outmsg \<Rightarrow> server" where
  "sendToAllClients server message =
     fold (\<lambda>ck s. send (message\<lparr>o_clientKey := Some ck\<rparr>) s)
       (for_in_keys server) server"

definition sendInfo :: "server \<Rightarrow> addr \<Rightarrow> string \<Rightarrow> server" where
  "sendInfo server torrent type =
     sendToTorrentClients server torrent (getInfoMessage server torrent type)"

definition sendInfo_es6 :: "server \<Rightarrow> addr \<Rightarrow> string \<Rightarrow> server" where
  "sendInfo_es6 server torrent type =
     sendToTorrentClients server torrent (getInfoMessage_es6 server torrent type)"

definition sendProgress :: "server \<Rightarrow> addr \<Rightarrow> string \<Rightarrow> server" where
  "sendProgress server torrent type =
     sendToTorrentClients server torrent (getProgressMessage server torrent type)"

definition sendError :: "server \<Rightarrow> addr option \<Rightarrow> error_payload \<Rightarrow> string \<Rightarrow> server" where
  "sendError server torrent e type =
     (let message = \<lparr>o_type = type, o_torrent = Absent,
                     o_error = Some \<lparr>e_message = e_message e, e_stack = e_stack e\<rparr>,
                     o_serverURL = None, o_clientKey = None, o_torrentKey = None\<rparr>
      in case torrent of
           Some t \<Rightarrow> sendToTorrentClients server t message
         | None \<Rightarrow> sendToAllClients server message)"

text \<open>
  \<^verbatim>\<open>sendSubscribed\<close> (part_000): \<open>subscribed_response\<close> is the object \<^verbatim>\<open>response\<close> it builds,
  with the info and progress snapshots merged when there is a torrent.
\<close>

definition subscribed_response :: "server \<Rightarrow> addr option \<Rightarrow> string \<Rightarrow> string \<Rightarrow> outmsg" where
  "subscribed_response server torrent ck tk =
     (let response = \<lparr>o_type = ''torrent-subscribed'', o_torrent = Null, o_error = None,
                      o_serverURL = None, o_clientKey = Some ck, o_torrentKey = Some tk\<rparr>
      in case torrent of
           None \<Rightarrow> response
         | Some t \<Rightarrow>
             (case (o_torrent (getInfoMessage server t ''''),
                    o_torrent (getProgressMessage server t '''')) of
                (Present (Info i), Present (Progress p)) \<Rightarrow>
                  response\<lparr>o_torrent := Present (Snapshot i p)\<rparr>
              | _ \<Rightarrow> response))"

definition sendSubscribed :: "server \<Rightarrow> addr option \<Rightarrow> string \<Rightarrow> string \<Rightarrow> server" where
  "sendSubscribed server torrent ck tk = send (subscribed_response server torrent ck tk) server"

subsection \<open>Subscribing and joining (part_000)\<close>

definition push_client :: "addr \<Rightarrow> keys \<Rightarrow> server \<Rightarrow> server" where
  "push_client torrent c s = upd_torrent torrent (\<lambda>t. t\<lparr>t_clients := t_clients t @ [c]\<rparr>) s"

definition find_infoHash :: "server \<Rightarrow> string option \<Rightarrow> addr list \<Rightarrow> addr option" where
  "find_infoHash s infohash torrents = find (\<lambda>t. t_infoHash (heap s t) = infohash) torrents"

definition handleSubscribe :: "parser \<Rightarrow> server \<Rightarrow> message \<Rightarrow> exn option \<times> server" where
  "handleSubscribe parseTorrent server message =
     (let wt = s_webtorrent server;
          ck = clientKey message;
          tk = torrentKey message;
          torrentID = m_torrentID message
      in case parseTorrent torrentID of
           Inl e \<Rightarrow> (Some e, server)
         | Inr p \<Rightarrow>
             (let infohash = pt_infoHash p;
                  torrent = (case wt of
                               None \<Rightarrow> None
                             | Some w \<Rightarrow> find_infoHash server infohash (wt_torrents w));
                  server1 = (case torrent of
                               None \<Rightarrow> server
                             | Some t \<Rightarrow>
                                 push_client t \<lparr>clientKey = ck, torrentKey = tk\<rparr> server)
              in (None, sendSubscribed server1 torrent ck tk)))"

text \<open>
  The branch of \<^verbatim>\<open>handleAddTorrent\<close> that joins the swarm: \<^verbatim>\<open>wt.add\<close>, \<^verbatim>\<open>torrent.clients = []\<close>,
  \<^verbatim>\<open>server._torrents.push(torrent)\<close>. \<^verbatim>\<open>addTorrentEvents\<close> registers the relays \<open>sendInfo\<close>,
  \<open>sendProgress\<close> and \<open>sendError\<close>, which the engine calls later.
\<close>

definition join_swarm :: "parser \<Rightarrow> string option \<Rightarrow> server \<Rightarrow> addr \<times> server" where
  "join_swarm parseTorrent torrentID s =
     (let (t, s1) = wt_add parseTorrent torrentID s;
          s2 = upd_torrent t (\<lambda>x. x\<lparr>t_clients := []\<rparr>) s1
      in (t, s2\<lparr>s_torrents := s_torrents s2 @ [t]\<rparr>))"

fun run_callback :: "callback \<Rightarrow> server \<Rightarrow> server" where
  "run_callback (ServerReadyCb torrent ck tk) s =
     send \<lparr>o_type = ''server-ready'', o_torrent = Absent, o_error = None,
           o_serverURL = t_serverURL (heap s torrent),
           o_clientKey = Some ck, o_torrentKey = Some tk\<rparr> s"
| "run_callback (RespondCb torrent ck tk) s = sendSubscribed s (Some torrent) ck tk"

definition createServer :: "addr \<Rightarrow> callback \<Rightarrow> server \<Rightarrow> server" where
  "createServer torrent cb s =
     (if truthy (t_serverURL (heap s torrent)) then run_callback cb s
      else case t_pendingServerCallbacks (heap s torrent) of
             Some cbs \<Rightarrow>
               upd_torrent torrent (\<lambda>t. t\<lparr>t_pendingServerCallbacks := Some (cbs @ [cb])\<rparr>) s
           | None \<Rightarrow>
               emit (Listen torrent)
                 (emit (CreateServer torrent)
                    (upd_torrent torrent (\<lambda>t. t\<lparr>t_pendingServerCallbacks := Some [cb]\<rparr>) s)))"

text \<open>
  The function \<^verbatim>\<open>createServer\<close> hands to \<^verbatim>\<open>torrent.server.listen\<close>; the engine calls it once
  the server listens, with the port of \<^verbatim>\<open>torrent.server.address()\<close>.
\<close>

definition listening :: "addr \<Rightarrow> nat \<Rightarrow> server \<Rightarrow> exn option \<times> server" where
  "listening torrent port s =
     (let s1 = upd_torrent torrent
                 (\<lambda>t. t\<lparr>t_serverURL := Some (''http://localhost:'' @ show_nat port)\<rparr>) s
      in case t_pendingServerCallbacks (heap s1 torrent) of
           None \<Rightarrow> (Some (TypeError ''pendingServerCallbacks is undefined''), s1)
         | Some cbs \<Rightarrow>
             (None, upd_torrent torrent (\<lambda>t. t\<lparr>t_pendingServerCallbacks := None\<rparr>)
                      (fold run_callback cbs s1)))"

definition handleAddTorrent :: "parser \<Rightarrow> server \<Rightarrow> message \<Rightarrow> exn option \<times> server" where
  "handleAddTorrent parseTorrent server message =
     (let (wt, server1) = webtorrent server
      in case parseTorrent (m_torrentID message) of
           Inl e \<Rightarrow> (Some e, server1)
         | Inr p \<Rightarrow>
             (let infohash = pt_infoHash p;
                  (torrent, server2) =
                    (case find_infoHash server1 infohash (wt_torrents wt) of
                       Some t \<Rightarrow> (t, server1)
                     | None \<Rightarrow>
                         join_swarm parseTorrent (m_torrentID message)
                           (trace_log (JoiningSwarm infohash (pt_name p)) server1));
                  ck = clientKey message;
                  tk = torrentKey message;
                  server3 = push_client torrent \<lparr>clientKey = ck, torrentKey = tk\<rparr> server2
              in case m_options message of
                   None \<Rightarrow> (Some (TypeError ''message.options is undefined''), server3)
                 | Some options \<Rightarrow>
                     if o_server options
                     then (None, createServer torrent (RespondCb torrent ck tk) server3)
                     else (None, sendSubscribed server3 (Some torrent) ck tk)))"

subsection \<open>Looking a torrent up by its key\<close>

definition hasTorrentKey :: "torrent \<Rightarrow> string \<Rightarrow> bool" where
  "hasTorrentKey torrent tk = list_ex (\<lambda>c. torrentKey c = tk) (t_clients torrent)"

definition getTorrentByKey :: "server \<Rightarrow> string \<Rightarrow> addr option \<times> server" where
  "getTorrentByKey server tk =
     (let (wt, s1) = webtorrent server;
          torrent = find (\<lambda>t. hasTorrentKey (heap s1 t) tk) (wt_torrents wt)
      in case torrent of
           None \<Rightarrow>
             (None, sendError s1 None
                      \<lparr>e_message = ''missing torrentKey: '' @ tk, e_stack = None\<rparr> ''warning'')
         | Some t \<Rightarrow> (Some t, s1))"

definition getTorrentByKey_es6 :: "server \<Rightarrow> string \<Rightarrow> (exn + addr) \<times> server" where
  "getTorrentByKey_es6 server tk =
     (let (wt, s1) = webtorrent server;
          torrent = find (\<lambda>t. hasTorrentKey (heap s1 t) tk) (wt_torrents wt)
      in case torrent of
           None \<Rightarrow> (Inl (Error (''Missing torrentKey: '' @ tk)), s1)
         | Some t \<Rightarrow> (Inr t, s1))"

definition handleCreateServer :: "server \<Rightarrow> message \<Rightarrow> server" where
  "handleCreateServer server message =
     (let ck = clientKey message;
          tk = torrentKey message;
          (torrent, s1) = getTorrentByKey server tk
      in case torrent of
           None \<Rightarrow> s1
         | Some t \<Rightarrow> createServer t (ServerReadyCb t ck tk) s1)"

subsection \<open>Heartbeats and teardown (part_000)\<close>

text \<open>
  \<^verbatim>\<open>client.heartbeat = ...\<close> writes to whatever the lookup found, if that is truthy: to the
  own entry; to an inherited function, which nothing reads afterwards; to
  \<^verbatim>\<open>Object.prototype\<close> itself for the key \<^verbatim>\<open>__proto__\<close>; and to a number for the key
  \<^verbatim>\<open>heartbeat\<close> once that is inherited, which is a silent no-op in non-strict code.
\<close>

definition handleHeartbeat :: "int \<Rightarrow> server \<Rightarrow> message \<Rightarrow> server" where
  "handleHeartbeat now server message =
     (case clients_get server (clientKey message) of
        OwnEntry c \<Rightarrow>
          server\<lparr>s_clients :=
            AList.update (clientKey message) (c\<lparr>heartbeat := now\<rparr>) (s_clients server)\<rparr>
      | InheritedFunction \<Rightarrow> server
      | TheObjectPrototype \<Rightarrow> server\<lparr>proto_heartbeat := Some now\<rparr>
      | InheritedNumber h \<Rightarrow>
          if h = 0 then emit (ConsoleError (SkippingHeartbeat (clientKey message))) server
          else server
      | JsUndefined \<Rightarrow> emit (ConsoleError (SkippingHeartbeat (clientKey message))) server)"

text \<open>
  The body of the \<^verbatim>\<open>forEach\<close> over \<^verbatim>\<open>server._torrents\<close> in \<^verbatim>\<open>killClients\<close> (part_000) and
  in \<^verbatim>\<open>removeDeadClients\<close> (server.js). The two differ in the console line only:
  \<open>logging\<close> says whether it is printed, \<open>line\<close> what it says.
\<close>

definition drop_dead ::
  "string list \<Rightarrow> bool \<Rightarrow> (torrent \<Rightarrow> diag) \<Rightarrow> addr \<Rightarrow> server \<Rightarrow> server" where
  "drop_dead deadClientKeys logging line torrent s =
     (let cs = filter (\<lambda>c. \<not> dead_key (proto_heartbeat s) deadClientKeys (clientKey c))
                 (t_clients (heap s torrent));
          s1 = upd_torrent torrent (\<lambda>t. t\<lparr>t_clients := cs\<rparr>) s
      in if length cs > 0 then s1
         else (let s2 = torrent_destroy torrent s1
               in if logging then emit (ConsoleLog (line (heap s2 torrent))) s2 else s2))"

text \<open>
  The end of both functions: drop the destroyed torrents from \<^verbatim>\<open>server._torrents\<close>; if
  none is left and the engine exists, destroy the engine and clear the reference.
\<close>

definition remove_torrents :: "bool \<Rightarrow> server \<Rightarrow> server" where
  "remove_torrents logging s =
     (let s1 = s\<lparr>s_torrents := filter (\<lambda>t. \<not> t_destroyed (heap s t)) (s_torrents s)\<rparr>
      in if length (s_torrents s1) > 0 \<or> s_webtorrent s1 = None then s1
         else (let s2 = emit WtDestroy (s1\<lparr>s_webtorrent := None\<rparr>)
               in if logging then emit (ConsoleLog InstanceDestroyed) s2 else s2))"

definition killClients :: "server \<Rightarrow> string list \<Rightarrow> server" where
  "killClients server clientKeys =
     (if clientKeys = [] then server
      else
        (let tr = trace (s_options server);
             s1 = server\<lparr>s_clients := fold AList.delete clientKeys (s_clients server)\<rparr>;
             s2 = fold (drop_dead clientKeys tr (\<lambda>t. TorrentDestroyed (t_name t)))
                    (s_torrents s1) s1
         in remove_torrents tr s2))"

definition removeDeadClients :: "int \<Rightarrow> server \<Rightarrow> int \<Rightarrow> server" where
  "removeDeadClients now server timeout =
     (let clientKeys =
            filter (\<lambda>k. \<not> (case client_heartbeat server k of
                               Some h \<Rightarrow> now - h \<le> timeout
                             | None \<Rightarrow> False))
              (for_in_keys server);
          s1 = fold (\<lambda>k s. trace_log (TorrentClientDied k) s) clientKeys server
      in killClients s1 clientKeys)"

definition sendUpdates :: "int \<Rightarrow> server \<Rightarrow> server" where
  "sendUpdates now server =
     (let timeout = (case heartbeatTimeout (s_options server) of
                       None \<Rightarrow> 30000
                     | Some v \<Rightarrow> v);
          s1 = (if timeout > 0 then removeDeadClients now server timeout else server)
      in fold (\<lambda>torrent s. sendProgress s torrent ''update'') (s_torrents s1) s1)"

definition handleDestroy :: "server \<Rightarrow> message \<Rightarrow> server" where
  "handleDestroy server message =
     (let ck = clientKey message;
          s1 = trace_log (DestroyingClient ck) server;
          delay = (case m_options message of
                     None \<Rightarrow> 0
                   | Some options \<Rightarrow> (case o_delay options of None \<Rightarrow> 0 | Some d \<Rightarrow> d))
      in if delay \<noteq> 0 then emit (SetTimeout ck delay) s1 else killClients s1 [ck])"

subsection \<open>The message router (part_000)\<close>

text \<open>
  The first statement of \<^verbatim>\<open>receive\<close> in both files: if \<^verbatim>\<open>this._clients[clientKey]\<close> is
  falsy, the client key gets an entry whose heartbeat is the current time; otherwise the
  registry is left as it is. Only part_000 prints the trace line (\<open>logging\<close>).
\<close>

definition touch_client :: "int \<Rightarrow> bool \<Rightarrow> server \<Rightarrow> string \<Rightarrow> server" where
  "touch_client now logging server ck =
     (if \<not> js_truthy (clients_get server ck)
      then (let s1 = (if logging then trace_log (AddingClient ck) server else server)
            in s1\<lparr>s_clients := s_clients s1 @ [(ck, \<lparr>c_clientKey = ck, heartbeat = now\<rparr>)]\<rparr>)
      else server)"

definition receive :: "parser \<Rightarrow> int \<Rightarrow> server \<Rightarrow> message \<Rightarrow> exn option \<times> server" where
  "receive parseTorrent now server message =
     (let s1 = touch_client now True server (clientKey message)
      in if m_type message = ''subscribe'' then handleSubscribe parseTorrent s1 message
         else if m_type message = ''add-torrent'' then handleAddTorrent parseTorrent s1 message
         else if m_type message = ''create-server'' then (None, handleCreateServer s1 message)
         else if m_type message = ''heartbeat'' then (None, handleHeartbeat now s1 message)
         else if m_type message = ''destroy'' then (None, handleDestroy s1 message)
         else (None, emit (ConsoleError (IgnoringUnknownMessageType message)) s1))"


subsection \<open>The class-style version, server.js\<close>

definition addClient :: "addr \<Rightarrow> string \<Rightarrow> string \<Rightarrow> server \<Rightarrow> server" where
  "addClient torrent ck tk s = push_client torrent \<lparr>clientKey = ck, torrentKey = tk\<rparr> s"

definition handleSubscribe_es6 :: "parser \<Rightarrow> server \<Rightarrow> message \<Rightarrow> exn option \<times> server" where
  "handleSubscribe_es6 parseTorrent server message =
     (let wt = s_webtorrent server;
          ck = clientKey message;
          tk = torrentKey message;
          response = \<lparr>o_type = ''torrent-subscribed'', o_torrent = Null, o_error = None,
                      o_serverURL = None, o_clientKey = Some ck, o_torrentKey = Some tk\<rparr>
      in case parseTorrent (m_torrentID message) of
           Inl e \<Rightarrow> (Some e, server)
         | Inr p \<Rightarrow>
             (let infohash = pt_infoHash p;
                  torrent = (case wt of
                               None \<Rightarrow> None
                             | Some w \<Rightarrow> find_infoHash server infohash (wt_torrents w))
              in case torrent of
                   None \<Rightarrow> (None, send response server)
                 | Some t \<Rightarrow>
                     (let im = getInfoMessage_es6 server t (o_type response);
                          response' = response\<lparr>o_type := o_type im, o_torrent := o_torrent im\<rparr>
                      in (None, send response' (addClient t ck tk server)))))"

definition handleAddTorrent_es6 :: "parser \<Rightarrow> server \<Rightarrow> message \<Rightarrow> exn option \<times> server" where
  "handleAddTorrent_es6 parseTorrent server message =
     (let (wt, server1) = webtorrent server;
          ck = clientKey message;
          tk = torrentKey message
      in case parseTorrent (m_torrentID message) of
           Inl e \<Rightarrow> (Some e, server1)
         | Inr p \<Rightarrow>
             (let infohash = pt_infoHash p;
                  (torrent, server2) =
                    (case find_infoHash server1 infohash (wt_torrents wt) of
                       Some t \<Rightarrow>
                         (let ks = \<lparr>clientKey = ck, torrentKey = tk\<rparr>;
                              a1 = send (assign_keys (getInfoMessage_es6 server1 t ''infohash'') ks)
                                     server1;
                              a2 = send (assign_keys (getInfoMessage_es6 a1 t ''metadata'') ks) a1;
                              progressType =
                                (if Some (t_downloaded (heap a2 t)) = t_length (heap a2 t)
                                 then ''done'' else ''update'')
                          in (t, send (assign_keys (getProgressMessage a2 t progressType) ks) a2))
                     | None \<Rightarrow> join_swarm parseTorrent (m_torrentID message) server1)
              in (None, addClient torrent ck tk server2)))"

definition handleCreateServer_es6 :: "server \<Rightarrow> message \<Rightarrow> exn option \<times> server" where
  "handleCreateServer_es6 server message =
     (let ck = clientKey message;
          tk = torrentKey message
      in case getTorrentByKey_es6 server tk of
           (Inl e, s1) \<Rightarrow> (Some e, s1)
         | (Inr torrent, s1) \<Rightarrow>
             (let serverURL = t_serverURL (heap s1 torrent)
              in if truthy serverURL
                 then (None, send \<lparr>o_type = ''server-ready'', o_torrent = Absent, o_error = None,
                                   o_serverURL = serverURL,
                                   o_clientKey = Some ck, o_torrentKey = Some tk\<rparr> s1)
                 else case t_pendingHttpClients (heap s1 torrent) of
                        Some cs \<Rightarrow>
                          (None, upd_torrent torrent
                                   (\<lambda>t. t\<lparr>t_pendingHttpClients :=
                                             Some (cs @ [\<lparr>clientKey = ck, torrentKey = tk\<rparr>])\<rparr>) s1)
                      | None \<Rightarrow>
                          (None, emit (Listen torrent)
                                   (emit (CreateServer torrent)
                                      (upd_torrent torrent
                                         (\<lambda>t. t\<lparr>t_pendingHttpClients :=
                                                   Some [\<lparr>clientKey = ck, torrentKey = tk\<rparr>]\<rparr>)
                                         s1)))))"

text \<open>The function \<^verbatim>\<open>handleCreateServer\<close> of server.js hands to \<^verbatim>\<open>torrent.server.listen\<close>.\<close>

definition listening_es6 :: "addr \<Rightarrow> nat \<Rightarrow> server \<Rightarrow> exn option \<times> server" where
  "listening_es6 torrent port s =
     (let serverURL = ''http://localhost:'' @ show_nat port;
          s1 = upd_torrent torrent (\<lambda>t. t\<lparr>t_serverURL := Some serverURL\<rparr>) s
      in case t_pendingHttpClients (heap s1 torrent) of
           None \<Rightarrow> (Some (TypeError ''pendingHttpClients is undefined''), s1)
         | Some cs \<Rightarrow>
             (None, upd_torrent torrent (\<lambda>t. t\<lparr>t_pendingHttpClients := None\<rparr>)
                      (fold (\<lambda>c x. send \<lparr>o_type = ''server-ready'', o_torrent = Absent,
                                          o_error = None, o_serverURL = Some serverURL,
                                          o_clientKey = Some (clientKey c),
                                          o_torrentKey = Some (torrentKey c)\<rparr> x) cs s1)))"

definition removeDeadClients_es6 :: "int \<Rightarrow> server \<Rightarrow> int \<Rightarrow> server" where
  "removeDeadClients_es6 now server timeout =
     (let isDead = (\<lambda>k. case client_heartbeat server k of
                             Some h \<Rightarrow> now - h > timeout
                           | None \<Rightarrow> False);
          deadClientKeys = filter isDead (for_in_keys server);
          s1 = fold (\<lambda>k s. (emit (ConsoleLog (TorrentClientDied k)) s)
                               \<lparr>s_clients := AList.delete k (s_clients s)\<rparr>)
                 deadClientKeys server
      in if length deadClientKeys = 0 then s1
         else (let s2 = fold (drop_dead deadClientKeys True
                                (\<lambda>t. TorrentDestoyed (t_name t) (t_key t)))
                          (s_torrents s1) s1
               in remove_torrents True s2))"

definition sendUpdates_es6 :: "int \<Rightarrow> server \<Rightarrow> server" where
  "sendUpdates_es6 now server =
     (let s1 = (case heartbeatTimeout (s_options server) of
                  None \<Rightarrow> server
                | Some timeout \<Rightarrow>
                    if timeout > 0 then removeDeadClients_es6 now server timeout else server)
      in fold (\<lambda>torrent s. sendProgress s torrent ''update'') (s_torrents s1) s1)"

definition receive_es6 :: "parser \<Rightarrow> int \<Rightarrow> server \<Rightarrow> message \<Rightarrow> exn option \<times> server" where
  "receive_es6 parseTorrent now server message =
     (let s1 = touch_client now False server (clientKey message)
      in if m_type message = ''subscribe'' then handleSubscribe_es6 parseTorrent s1 message
         else if m_type message = ''add-torrent'' then handleAddTorrent_es6 parseTorrent s1 message
         else if m_type message = ''create-server'' then handleCreateServer_es6 s1 message
         else if m_type message = ''heartbeat'' then (None, handleHeartbeat now s1 message)
         else (None, emit (ConsoleError (IgnoringUnknownMessageType message)) s1))"

subsection \<open>A parser for evaluation\<close>

text \<open>
  A stand-in for parse-torrent that the closed examples below evaluate: it throws on an
  absent identifier, as parse-torrent does (\<^verbatim>\<open>Invalid torrent identifier\<close>), and takes any
  string as the info hash it names. The examples feed it 40-digit lower-case hex info
  hashes only, which parse-torrent returns unchanged. Every general theorem holds for all
  parsers.
\<close>

definition parse_hex :: parser where
  "parse_hex torrentID =
     (case torrentID of
        None \<Rightarrow> Inl (Error ''Invalid torrent identifier'')
      | Some h \<Rightarrow> Inr \<lparr>pt_infoHash = Some h, pt_name = None\<rparr>)"


subsection \<open>Engine-side changes\<close>

text \<open>
  Between two calls of the server the engine changes the descriptive fields and the
  metrics of a torrent (metadata arrives, pieces are transferred). It does not touch the
  info hash of a parsed identifier nor the fields the server adds.
\<close>

definition engine_update ::
  "addr \<Rightarrow> string option \<Rightarrow> jsnum option \<Rightarrow> torrent_file list option \<Rightarrow> progress \<Rightarrow> server \<Rightarrow> server"
  where
  "engine_update a nm len fs p s =
     upd_torrent a
       (\<lambda>t. t\<lparr>t_name := nm, t_length := len, t_files := fs,
               t_progress := pr_progress p, t_downloaded := pr_downloaded p,
               t_uploaded := pr_uploaded p, t_downloadSpeed := pr_downloadSpeed p,
               t_uploadSpeed := pr_uploadSpeed p, t_ratio := pr_ratio p,
               t_numPeers := pr_numPeers p, t_timeRemaining := pr_timeRemaining p\<rparr>) s"

section \<open>Specification vocabulary\<close>

subsection \<open>Reading the effect log\<close>

primrec sent :: "effect list \<Rightarrow> outmsg list" where
  "sent [] = []"
| "sent (e # es) = (case e of Send m \<Rightarrow> m # sent es | _ \<Rightarrow> sent es)"

primrec joins :: "effect list \<Rightarrow> addr list" where
  "joins [] = []"
| "joins (e # es) = (case e of WtAdd a \<Rightarrow> a # joins es | _ \<Rightarrow> joins es)"

primrec listens :: "effect list \<Rightarrow> addr list" where
  "listens [] = []"
| "listens (e # es) = (case e of Listen a \<Rightarrow> a # listens es | _ \<Rightarrow> listens es)"

primrec destroys :: "effect list \<Rightarrow> addr list" where
  "destroys [] = []"
| "destroys (e # es) = (case e of TorrentDestroy a \<Rightarrow> a # destroys es | _ \<Rightarrow> destroys es)"

text \<open>The log without the console lines, which is where the two files differ most.\<close>

fun is_console :: "effect \<Rightarrow> bool" where
  "is_console (ConsoleLog d) = True"
| "is_console (ConsoleError d) = True"
| "is_console e = False"

definition quiet :: "server \<Rightarrow> server" where
  "quiet s = s\<lparr>effects := filter (\<lambda>e. \<not> is_console e) (effects s)\<rparr>"

subsection \<open>Subscriptions that survive a teardown\<close>

text \<open>\<open>dead\<close> is the test \<^verbatim>\<open>deadClientKeys[k]\<close> on a client key.\<close>

definition survivors :: "(string \<Rightarrow> bool) \<Rightarrow> keys list \<Rightarrow> keys list" where
  "survivors dead cs = filter (\<lambda>c. \<not> dead (clientKey c)) cs"

definition killed :: "(string \<Rightarrow> bool) \<Rightarrow> torrent \<Rightarrow> torrent" where
  "killed dead t =
     (if survivors dead (t_clients t) = [] then t\<lparr>t_clients := [], t_destroyed := True\<rparr>
      else t\<lparr>t_clients := survivors dead (t_clients t)\<rparr>)"

text \<open>The client keys the sweeper finds stale at time \<open>now\<close>.\<close>

definition stale :: "int \<Rightarrow> int \<Rightarrow> server \<Rightarrow> string list" where
  "stale now timeout s =
     filter (\<lambda>k. case client_heartbeat s k of Some h \<Rightarrow> now - h > timeout | None \<Rightarrow> False)
       (for_in_keys s)"

subsection \<open>Consistent and reachable states\<close>

text \<open>
  The registries agree with each other: the swarm registry \<^verbatim>\<open>server._torrents\<close> lists the
  engine's torrents (and is empty while there is no engine), no two registered swarms
  have the same info hash, every registered swarm is allocated, alive and has a
  subscriber, and every client key has one entry.
\<close>

definition consistent :: "server \<Rightarrow> bool" where
  "consistent s \<longleftrightarrow>
     (case s_webtorrent s of
        None \<Rightarrow> s_torrents s = []
      | Some wt \<Rightarrow> wt_torrents wt = s_torrents s)
     \<and> distinct (map (\<lambda>a. t_infoHash (heap s a)) (s_torrents s))
     \<and> (\<forall>a \<in> set (s_torrents s).
           a < next_addr s \<and> \<not> t_destroyed (heap s a) \<and> t_clients (heap s a) \<noteq> [])
     \<and> distinct (map fst (s_clients s))"

datatype version = Part000 | ServerJs

text \<open>
  The states a server of either file reaches from its constructor: by messages, sweeper
  ticks, completions of \<^verbatim>\<open>listen\<close>, delayed destroys, engine-side changes and the relays
  of engine events.
\<close>

inductive reachable :: "version \<Rightarrow> parser \<Rightarrow> server \<Rightarrow> bool"
  for v :: version and parseTorrent :: parser where
  constructed: "reachable v parseTorrent (WebTorrentRemoteServer options)"
| received:
    "reachable v parseTorrent s \<Longrightarrow> v = Part000 \<Longrightarrow>
     reachable v parseTorrent (snd (receive parseTorrent now s m))"
| received_es6:
    "reachable v parseTorrent s \<Longrightarrow> v = ServerJs \<Longrightarrow>
     reachable v parseTorrent (snd (receive_es6 parseTorrent now s m))"
| ticked:
    "reachable v parseTorrent s \<Longrightarrow> v = Part000 \<Longrightarrow>
     reachable v parseTorrent (sendUpdates now s)"
| ticked_es6:
    "reachable v parseTorrent s \<Longrightarrow> v = ServerJs \<Longrightarrow>
     reachable v parseTorrent (sendUpdates_es6 now s)"
| listened:
    "reachable v parseTorrent s \<Longrightarrow> v = Part000 \<Longrightarrow> Listen a \<in> set (effects s) \<Longrightarrow>
     reachable v parseTorrent (snd (listening a port s))"
| listened_es6:
    "reachable v parseTorrent s \<Longrightarrow> v = ServerJs \<Longrightarrow> Listen a \<in> set (effects s) \<Longrightarrow>
     reachable v parseTorrent (snd (listening_es6 a port s))"
| timed_out:
    "reachable v parseTorrent s \<Longrightarrow> v = Part000 \<Longrightarrow> SetTimeout ck d \<in> set (effects s) \<Longrightarrow>
     reachable v parseTorrent (killClients s [ck])"
| engine_updated:
    "reachable v parseTorrent s \<Longrightarrow>
     reachable v parseTorrent (engine_update a nm len fs p s)"
| relayed_info:
    "reachable v parseTorrent s \<Longrightarrow> v = Part000 \<Longrightarrow>
     reachable v parseTorrent (sendInfo s a type)"
| relayed_info_es6:
    "reachable v parseTorrent s \<Longrightarrow> v = ServerJs \<Longrightarrow>
     reachable v parseTorrent (sendInfo_es6 s a type)"
| relayed_progress:
    "reachable v parseTorrent s \<Longrightarrow>
     reachable v parseTorrent (sendProgress s a type)"
| relayed_error:
    "reachable v parseTorrent s \<Longrightarrow>
     reachable v parseTorrent (sendError s ta e type)"

subsection \<open>Example states\<close>

text \<open>
  The closed examples run the server from its constructor on concrete messages. \<open>hashX\<close>
  is a 40-digit hex info hash. \<open>two_clients\<close> is the state of the part_000 server after
  clients \<open>a\<close> and \<open>b\<close> have each sent \<^verbatim>\<open>add-torrent\<close> for \<open>hashX\<close> at time 0.
\<close>

definition hashX :: string where
  "hashX = ''aaaaaaaaaaaaaaaaaaaaaaaaaaaaaaaaaaaaaaaa''"

definition msg :: "string \<Rightarrow> string \<Rightarrow> string \<Rightarrow> string option \<Rightarrow> message" where
  "msg type ck tk torrentID =
     \<lparr>clientKey = ck, torrentKey = tk, m_type = type, m_torrentID = torrentID,
      m_options = Some \<lparr>o_server = False, o_delay = None\<rparr>\<rparr>"

definition two_clients :: server where
  "two_clients =
     snd (receive parse_hex 0
       (snd (receive parse_hex 0 (WebTorrentRemoteServer None)
          (msg ''add-torrent'' ''a'' ''k1'' (Some hashX))))
       (msg ''add-torrent'' ''b'' ''k2'' (Some hashX)))"

text \<open>The same two messages, handled by the server of server.js.\<close>

definition two_clients_es6 :: server where
  "two_clients_es6 =
     snd (receive_es6 parse_hex 0
       (snd (receive_es6 parse_hex 0 (WebTorrentRemoteServer None)
          (msg ''add-torrent'' ''a'' ''k1'' (Some hashX))))
       (msg ''add-torrent'' ''b'' ''k2'' (Some hashX)))"

text \<open>
  \<open>numbered_clients\<close>: as \<open>two_clients\<close>, but the clients call themselves \<open>10\<close> and
  \<open>2\<close>, and register in that order.
\<close>

definition numbered_clients :: server where
  "numbered_clients =
     snd (receive parse_hex 0
       (snd (receive parse_hex 0 (WebTorrentRemoteServer None)
          (msg ''add-torrent'' ''10'' ''k1'' (Some hashX))))
       (msg ''add-torrent'' ''2'' ''k2'' (Some hashX)))"

text \<open>\<open>shared_key\<close>: as \<open>two_clients\<close>, but both clients chose the torrent key \<open>k1\<close>.\<close>

definition shared_key :: server where
  "shared_key =
     snd (receive parse_hex 0
       (snd (receive parse_hex 0 (WebTorrentRemoteServer None)
          (msg ''add-torrent'' ''a'' ''k1'' (Some hashX))))
       (msg ''add-torrent'' ''b'' ''k1'' (Some hashX)))"

text \<open>
  The message \<open>getTorrentByKey\<close> of part_000 sends to client \<open>ck\<close> when no torrent has
  the torrent key \<open>tk\<close>: a warning with client key and without torrent key.
\<close>

definition missing_key_warning :: "string \<Rightarrow> string \<Rightarrow> outmsg" where
  "missing_key_warning tk ck =
     \<lparr>o_type = ''warning'', o_torrent = Absent,
      o_error = Some \<lparr>e_message = ''missing torrentKey: '' @ tk, e_stack = None\<rparr>,
      o_serverURL = None, o_clientKey = Some ck, o_torrentKey = None\<rparr>"

text \<open>
  The part of the state the registries consist of: engine reference, swarm registry, client
  registry, allocation pointer and, of every torrent, info hash, destroyed flag and
  subscriber list.
\<close>

definition registry ::
  "server \<Rightarrow> webtorrent_instance option \<times> addr list \<times> (string \<times> client) list \<times> addr \<times>
             (addr \<Rightarrow> string option \<times> bool \<times> keys list)" where
  "registry s =
     (s_webtorrent s, s_torrents s, s_clients s, next_addr s,
      \<lambda>a. (t_infoHash (heap s a), t_destroyed (heap s a), t_clients (heap s a)))"

text \<open>
  What handling \<^verbatim>\<open>add-torrent\<close> for the info hash \<open>ih\<close> and the subscription \<open>k\<close> does to
  the registries, from \<open>s\<close> to \<open>s'\<close>: with a registered swarm of that info hash, no join,
  the same swarm registry and \<open>k\<close> appended to that swarm's subscribers; without one,
  exactly one join, whose torrent has the info hash, is registered last and has \<open>k\<close> as
  its only subscriber. The subscribers of every other torrent are as before.
\<close>

definition attaches_or_joins :: "server \<Rightarrow> server \<Rightarrow> string option \<Rightarrow> keys \<Rightarrow> bool" where
  "attaches_or_joins s s' ih k \<longleftrightarrow>
     (case find (\<lambda>a. t_infoHash (heap s a) = ih) (s_torrents s) of
        Some a \<Rightarrow>
          s_torrents s' = s_torrents s
          \<and> joins (effects s') = joins (effects s)
          \<and> t_clients (heap s' a) = t_clients (heap s a) @ [k]
          \<and> (\<forall>b. b \<noteq> a \<longrightarrow> t_clients (heap s' b) = t_clients (heap s b))
      | None \<Rightarrow>
          s_torrents s' = s_torrents s @ [next_addr s]
          \<and> joins (effects s') = joins (effects s) @ [next_addr s]
          \<and> t_infoHash (heap s' (next_addr s)) = ih
          \<and> t_clients (heap s' (next_addr s)) = [k]
          \<and> (\<forall>b. b \<noteq> next_addr s \<longrightarrow> t_clients (heap s' b) = t_clients (heap s b)))"

text \<open>A second info hash, and the part_000 server after the first \<^verbatim>\<open>add-torrent\<close> of client \<open>a\<close>.\<close>

definition hashY :: string where
  "hashY = ''bbbbbbbbbbbbbbbbbbbbbbbbbbbbbbbbbbbbbbbb''"

definition one_client :: server where
  "one_client =
     snd (receive parse_hex 0 (WebTorrentRemoteServer None)
            (msg ''add-torrent'' ''a'' ''k1'' (Some hashX)))"

subsection \<open>Server provisioning\<close>

text \<open>
  The torrent key \<open>tk\<close> resolves to the torrent \<open>a\<close>: the engine exists and \<open>a\<close> is the
  first of its torrents with a subscription under \<open>tk\<close>, which is what \<open>getTorrentByKey\<close>
  returns.
\<close>

definition resolves :: "server \<Rightarrow> string \<Rightarrow> addr \<Rightarrow> bool" where
  "resolves s tk a =
     (case s_webtorrent s of
        None \<Rightarrow> False
      | Some wt \<Rightarrow> find (\<lambda>t. hasTorrentKey (heap s t) tk) (wt_torrents wt) = Some a)"

text \<open>The \<^verbatim>\<open>server-ready\<close> notification for one requester.\<close>

definition server_ready :: "string \<Rightarrow> keys \<Rightarrow> outmsg" where
  "server_ready url k =
     \<lparr>o_type = ''server-ready'', o_torrent = Absent, o_error = None, o_serverURL = Some url,
      o_clientKey = Some (clientKey k), o_torrentKey = Some (torrentKey k)\<rparr>"

text \<open>A list of \<^verbatim>\<open>create-server\<close> messages handled one after the other, in either file.\<close>

definition requests :: "message list \<Rightarrow> server \<Rightarrow> server" where
  "requests ms s = fold (\<lambda>m x. handleCreateServer x m) ms s"

definition requests_es6 :: "message list \<Rightarrow> server \<Rightarrow> server" where
  "requests_es6 ms s = fold (\<lambda>m x. snd (handleCreateServer_es6 x m)) ms s"

section \<open>Properties\<close>

subsection \<open>Sending\<close>

lemma sent_append [simp]: "sent (xs @ ys) = sent xs @ sent ys"
  by (induction xs) (simp_all split: effect.splits)

lemma sent_map_Send [simp]: "sent (map (\<lambda>c. Send (f c)) xs) = map f xs"
  by (induction xs) simp_all

lemma fold_send:
  "fold (\<lambda>c s. send (f c) s) xs s = s\<lparr>effects := effects s @ map (\<lambda>c. Send (f c)) xs\<rparr>"
  by (induction xs arbitrary: s) (simp_all add: send_def emit_def)

lemma sendToTorrentClients_eq:
  "sendToTorrentClients s t m =
     s\<lparr>effects := effects s @ map (\<lambda>c. Send (assign_keys m c)) (t_clients (heap s t))\<rparr>"
  by (simp add: sendToTorrentClients_def fold_send)

lemma sendToAllClients_eq:
  "sendToAllClients s m =
     s\<lparr>effects := effects s @ map (\<lambda>k. Send (m\<lparr>o_clientKey := Some k\<rparr>)) (for_in_keys s)\<rparr>"
  by (simp add: sendToAllClients_def fold_send)

text \<open>
  C6. Swarm-scoped fan-out: \<open>sendToTorrentClients\<close> calls \<^verbatim>\<open>server._send\<close> once per
  subscription of the swarm, in the order of the subscriber list, each time with the
  shared payload merged with that subscription's client key and torrent key; it adds
  exactly as many effects as the swarm has subscriptions (all of them sends) and changes
  nothing else in the state.
\<close>

theorem sendToTorrentClients_fanout:
  "effects (sendToTorrentClients server torrent message) =
     effects server @
       map (\<lambda>c. Send (message\<lparr>o_clientKey := Some (clientKey c),
                               o_torrentKey := Some (torrentKey c)\<rparr>))
         (t_clients (heap server torrent))
   \<and> length (sent (effects (sendToTorrentClients server torrent message))) =
       length (sent (effects server)) + length (t_clients (heap server torrent))
   \<and> length (effects (sendToTorrentClients server torrent message)) =
       length (effects server) + length (t_clients (heap server torrent))
   \<and> sendToTorrentClients server torrent message =
       server\<lparr>effects := effects (sendToTorrentClients server torrent message)\<rparr>"
  by (simp add: sendToTorrentClients_eq assign_keys_def)

text \<open>Two subscribers, one progress event: two messages, each with its own keys.\<close>

theorem sendToTorrentClients_fanout_witness:
  "sent (effects (sendToTorrentClients
      ((WebTorrentRemoteServer None)\<lparr>heap := (\<lambda>a. (new_torrent None None)\<lparr>t_clients :=
          [\<lparr>clientKey = ''a'', torrentKey = ''k1''\<rparr>, \<lparr>clientKey = ''b'', torrentKey = ''k2''\<rparr>]\<rparr>)\<rparr>)
      0 (getProgressMessage (WebTorrentRemoteServer None) 0 ''update''))) =
    [(getProgressMessage (WebTorrentRemoteServer None) 0 ''update'')
        \<lparr>o_clientKey := Some ''a'', o_torrentKey := Some ''k1''\<rparr>,
     (getProgressMessage (WebTorrentRemoteServer None) 0 ''update'')
        \<lparr>o_clientKey := Some ''b'', o_torrentKey := Some ''k2''\<rparr>]"
  using sendToTorrentClients_fanout
    [of "(WebTorrentRemoteServer None)\<lparr>heap := (\<lambda>a. (new_torrent None None)\<lparr>t_clients :=
          [\<lparr>clientKey = ''a'', torrentKey = ''k1''\<rparr>, \<lparr>clientKey = ''b'', torrentKey = ''k2''\<rparr>]\<rparr>)\<rparr>"
        0 "getProgressMessage (WebTorrentRemoteServer None) 0 ''update''"]
  by (simp add: WebTorrentRemoteServer_def emit_def)

subsection \<open>Teardown\<close>

lemma destroys_append [simp]: "destroys (xs @ ys) = destroys xs @ destroys ys"
  by (induction xs) (simp_all split: effect.splits)

lemma survivors_idem [simp]: "survivors dead (survivors dead cs) = survivors dead cs"
  by (simp add: survivors_def)

lemma killed_idem [simp]: "killed dead (killed dead t) = killed dead t"
  by (simp add: killed_def survivors_def)

lemma killed_fields [simp]:
  "t_clients (killed dead t) = survivors dead (t_clients t)"
  "t_destroyed (killed dead t) = (t_destroyed t \<or> survivors dead (t_clients t) = [])"
  "t_infoHash (killed dead t) = t_infoHash t"
  by (simp_all add: killed_def)

lemma drop_dead_fields [simp]:
  "s_clients (drop_dead dead lg line a s) = s_clients s"
  "s_torrents (drop_dead dead lg line a s) = s_torrents s"
  "s_options (drop_dead dead lg line a s) = s_options s"
  "next_addr (drop_dead dead lg line a s) = next_addr s"
  "proto_heartbeat (drop_dead dead lg line a s) = proto_heartbeat s"
  by (simp_all add: drop_dead_def upd_torrent_def torrent_destroy_def emit_def Let_def)

lemma drop_dead_heap:
  "heap (drop_dead dead lg line a s) = (heap s)(a := killed (dead_key (proto_heartbeat s) dead) (heap s a))"
  by (auto simp: drop_dead_def upd_torrent_def torrent_destroy_def emit_def Let_def
      killed_def survivors_def fun_eq_iff)

lemma drop_dead_survivors [simp]:
  "survivors (dead_key (proto_heartbeat s) dead) (t_clients (heap (drop_dead dead lg line a s) b)) =
     survivors (dead_key (proto_heartbeat s) dead) (t_clients (heap s b))"
  by (simp add: drop_dead_heap)

lemma drop_dead_webtorrent [simp]:
  "s_webtorrent (drop_dead dead lg line a s) =
     (if survivors (dead_key (proto_heartbeat s) dead) (t_clients (heap s a)) = []
      then map_option (\<lambda>wt. wt\<lparr>wt_torrents := removeAll a (wt_torrents wt)\<rparr>) (s_webtorrent s)
      else s_webtorrent s)"
  by (simp add: drop_dead_def upd_torrent_def torrent_destroy_def emit_def Let_def survivors_def)

lemma drop_dead_destroys [simp]:
  "destroys (effects (drop_dead dead lg line a s)) =
     destroys (effects s) @ (if survivors (dead_key (proto_heartbeat s) dead) (t_clients (heap s a)) = [] then [a] else [])"
  by (simp add: drop_dead_def upd_torrent_def torrent_destroy_def emit_def Let_def survivors_def)

lemma drop_dead_WtDestroy [simp]:
  "count_list (effects (drop_dead dead lg line a s)) WtDestroy = count_list (effects s) WtDestroy"
  by (simp add: drop_dead_def upd_torrent_def torrent_destroy_def emit_def Let_def)

lemma fold_drop_dead_fields [simp]:
  "s_clients (fold (drop_dead dead lg line) xs s) = s_clients s"
  "s_torrents (fold (drop_dead dead lg line) xs s) = s_torrents s"
  "s_options (fold (drop_dead dead lg line) xs s) = s_options s"
  "next_addr (fold (drop_dead dead lg line) xs s) = next_addr s"
  "proto_heartbeat (fold (drop_dead dead lg line) xs s) = proto_heartbeat s"
  "count_list (effects (fold (drop_dead dead lg line) xs s)) WtDestroy = count_list (effects s) WtDestroy"
  by (induction xs arbitrary: s) simp_all

lemma fold_drop_dead_heap:
  "heap (fold (drop_dead dead lg line) xs s) a =
     (if a \<in> set xs then killed (dead_key (proto_heartbeat s) dead) (heap s a) else heap s a)"
  by (induction xs arbitrary: s) (auto simp: drop_dead_heap)

lemma fold_drop_dead_destroys:
  "destroys (effects (fold (drop_dead dead lg line) xs s)) =
     destroys (effects s) @ filter (\<lambda>a. survivors (dead_key (proto_heartbeat s) dead) (t_clients (heap s a)) = []) xs"
  by (induction xs arbitrary: s) auto

lemma wt_update_eq: "wt\<lparr>wt_torrents := xs\<rparr> = \<lparr>wt_torrents = xs\<rparr>"
  by (cases wt) simp

lemma fold_drop_dead_webtorrent:
  "s_webtorrent (fold (drop_dead dead lg line) xs s) =
     map_option (\<lambda>wt. \<lparr>wt_torrents =
        filter (\<lambda>a. \<not> (a \<in> set xs \<and> survivors (dead_key (proto_heartbeat s) dead) (t_clients (heap s a)) = []))
          (wt_torrents wt)\<rparr>)
      (s_webtorrent s)"
proof (induction xs arbitrary: s)
  case Nil
  show ?case by (cases "s_webtorrent s") simp_all
next
  case (Cons a xs)
  show ?case
    by (cases "s_webtorrent s")
       (auto simp: Cons removeAll_filter_not_eq wt_update_eq intro!: filter_cong)
qed

lemma remove_torrents_fields [simp]:
  "s_clients (remove_torrents lg s) = s_clients s"
  "s_options (remove_torrents lg s) = s_options s"
  "next_addr (remove_torrents lg s) = next_addr s"
  "proto_heartbeat (remove_torrents lg s) = proto_heartbeat s"
  "heap (remove_torrents lg s) = heap s"
  "s_torrents (remove_torrents lg s) = filter (\<lambda>t. \<not> t_destroyed (heap s t)) (s_torrents s)"
  "destroys (effects (remove_torrents lg s)) = destroys (effects s)"
  by (simp_all add: remove_torrents_def emit_def Let_def)

lemma remove_torrents_webtorrent:
  "s_webtorrent (remove_torrents lg s) =
     (if filter (\<lambda>t. \<not> t_destroyed (heap s t)) (s_torrents s) = [] then None else s_webtorrent s)"
  by (auto simp: remove_torrents_def emit_def Let_def)


lemma fold_delete:
  "fold AList.delete ks xs = filter (\<lambda>(k, c). k \<notin> set ks) xs"
proof (induction ks arbitrary: xs)
  case Nil
  show ?case by simp
next
  case (Cons k ks)
  have "filter (\<lambda>(k', c). k' \<notin> set ks) (AList.delete k xs) =
        filter (\<lambda>(k', c). k' \<notin> set (k # ks)) xs"
    by (induction xs) (auto simp: AList.delete_eq)
  then show ?case by (simp add: Cons)
qed

text \<open>What \<open>killClients\<close> leaves, field by field (for a non-empty list of keys).\<close>

lemma killClients_fields:
  assumes "clientKeys \<noteq> []"
  shows "s_clients (killClients s clientKeys) = filter (\<lambda>(k, c). k \<notin> set clientKeys) (s_clients s)"
    and "s_options (killClients s clientKeys) = s_options s"
    and "next_addr (killClients s clientKeys) = next_addr s"
    and "proto_heartbeat (killClients s clientKeys) = proto_heartbeat s"
    and "heap (killClients s clientKeys) a =
           (if a \<in> set (s_torrents s) then killed (dead_key (proto_heartbeat s) clientKeys) (heap s a) else heap s a)"
    and "destroys (effects (killClients s clientKeys)) =
           destroys (effects s) @
             filter (\<lambda>a. survivors (dead_key (proto_heartbeat s) clientKeys) (t_clients (heap s a)) = []) (s_torrents s)"
  using assms
  by (simp_all add: killClients_def Let_def fold_delete fold_drop_dead_heap fold_drop_dead_destroys)

lemma killClients_torrents:
  assumes "clientKeys \<noteq> []" and "\<forall>a \<in> set (s_torrents s). \<not> t_destroyed (heap s a)"
  shows "s_torrents (killClients s clientKeys) =
           filter (\<lambda>a. survivors (dead_key (proto_heartbeat s) clientKeys) (t_clients (heap s a)) \<noteq> []) (s_torrents s)"
  using assms
  by (auto simp: killClients_def Let_def fold_drop_dead_heap intro!: filter_cong)

lemma killClients_webtorrent:
  assumes "clientKeys \<noteq> []" and "consistent s"
  shows "s_webtorrent (killClients s clientKeys) =
           (if s_torrents (killClients s clientKeys) = [] then None
            else Some \<lparr>wt_torrents = s_torrents (killClients s clientKeys)\<rparr>)"
proof (cases "s_webtorrent s")
  case None
  with assms show ?thesis
    by (simp add: killClients_def Let_def consistent_def remove_torrents_webtorrent
        fold_drop_dead_webtorrent)
next
  case (Some wt)
  with assms have wt: "wt_torrents wt = s_torrents s"
    and alive: "\<forall>a \<in> set (s_torrents s). \<not> t_destroyed (heap s a)"
    by (simp_all add: consistent_def)
  have "filter (\<lambda>a. \<not> t_destroyed (killed (dead_key (proto_heartbeat s) clientKeys) (heap s a))) (s_torrents s) =
        filter (\<lambda>a. survivors (dead_key (proto_heartbeat s) clientKeys) (t_clients (heap s a)) \<noteq> []) (s_torrents s)"
    using alive by (auto intro!: filter_cong)
  with assms(1) Some wt show ?thesis
    by (auto simp: killClients_def Let_def remove_torrents_webtorrent
        fold_drop_dead_webtorrent fold_drop_dead_heap cong: filter_cong)
qed


lemma killClients_consistent:
  assumes "consistent s"
  shows "consistent (killClients s clientKeys)"
proof (cases "clientKeys = []")
  case True
  with assms show ?thesis by (simp add: killClients_def)
next
  case False
  from assms have alive: "\<forall>a \<in> set (s_torrents s). \<not> t_destroyed (heap s a)"
    by (simp add: consistent_def)
  note tor = killClients_torrents [OF False alive]
  note wt = killClients_webtorrent [OF False assms]
  note fields = killClients_fields [OF False, of s]
  have 1: "case s_webtorrent (killClients s clientKeys) of
             None \<Rightarrow> s_torrents (killClients s clientKeys) = []
           | Some w \<Rightarrow> wt_torrents w = s_torrents (killClients s clientKeys)"
    by (simp add: wt)
  have ih: "\<And>a. t_infoHash (heap (killClients s clientKeys) a) = t_infoHash (heap s a)"
    by (simp add: fields)
  have 2: "distinct (map (\<lambda>a. t_infoHash (heap (killClients s clientKeys) a))
                        (s_torrents (killClients s clientKeys)))"
    using assms by (simp add: ih tor consistent_def distinct_map_filter)
  have 3: "\<forall>a \<in> set (s_torrents (killClients s clientKeys)).
             a < next_addr (killClients s clientKeys) \<and>
             \<not> t_destroyed (heap (killClients s clientKeys) a) \<and>
             t_clients (heap (killClients s clientKeys) a) \<noteq> []"
    using assms by (auto simp: tor fields consistent_def)
  have 4: "distinct (map fst (s_clients (killClients s clientKeys)))"
    using assms by (simp add: fields consistent_def distinct_map_filter)
  from 1 2 3 4 show ?thesis unfolding consistent_def by blast
qed

subsection \<open>The sweeper's two versions run the same teardown\<close>

lemma quiet_fields [simp]:
  "s_clients (quiet s) = s_clients s"
  "s_torrents (quiet s) = s_torrents s"
  "s_options (quiet s) = s_options s"
  "s_webtorrent (quiet s) = s_webtorrent s"
  "heap (quiet s) = heap s"
  "next_addr (quiet s) = next_addr s"
  "proto_heartbeat (quiet s) = proto_heartbeat s"
  by (simp_all add: quiet_def)

lemma drop_dead_quiet:
  "quiet (drop_dead dead lg line a s) = drop_dead dead False line0 a (quiet s)"
  by (simp add: quiet_def drop_dead_def upd_torrent_def torrent_destroy_def emit_def Let_def)

lemma fold_drop_dead_quiet:
  "quiet (fold (drop_dead dead lg line) xs s) = fold (drop_dead dead False line0) xs (quiet s)"
  by (induction xs arbitrary: s) (simp_all add: drop_dead_quiet [where ?line0.0 = line0])

lemma remove_torrents_quiet:
  "quiet (remove_torrents lg s) = remove_torrents False (quiet s)"
  by (simp add: quiet_def remove_torrents_def emit_def Let_def)

lemma quiet_update [simp]:
  "quiet (s\<lparr>s_clients := x\<rparr>) = (quiet s)\<lparr>s_clients := x\<rparr>"
  by (simp add: quiet_def)

lemma quiet_console [simp]:
  "quiet (s\<lparr>effects := effects s @ map (\<lambda>k. ConsoleLog (f k)) ks\<rparr>) = quiet s"
  by (simp add: quiet_def)

lemma killClients_quiet:
  "quiet (killClients s ks) =
     (if ks = [] then quiet s
      else remove_torrents False
             (fold (drop_dead ks False (\<lambda>t. InstanceDestroyed)) (s_torrents s)
                ((quiet s)\<lparr>s_clients := filter (\<lambda>(k, c). k \<notin> set ks) (s_clients s)\<rparr>)))"
  by (simp add: killClients_def Let_def remove_torrents_quiet fold_delete
      fold_drop_dead_quiet [where ?line0.0 = "\<lambda>t. InstanceDestroyed"])

lemma fold_trace_log:
  "fold (\<lambda>k s. trace_log (f k) s) ks s =
     s\<lparr>effects := effects s @ (if trace (s_options s) then map (\<lambda>k. ConsoleLog (f k)) ks else [])\<rparr>"
  by (induction ks arbitrary: s) (simp_all add: trace_log_def emit_def)

lemma fold_log_delete:
  "fold (\<lambda>k s. (emit (ConsoleLog (f k)) s)\<lparr>s_clients := AList.delete k (s_clients s)\<rparr>) ks s =
     s\<lparr>s_clients := fold AList.delete ks (s_clients s),
       effects := effects s @ map (\<lambda>k. ConsoleLog (f k)) ks\<rparr>"
  by (induction ks arbitrary: s) (simp_all add: emit_def)

lemma server_update_swap:
  "s\<lparr>effects := e, s_clients := c\<rparr> = s\<lparr>s_clients := c, effects := e\<rparr>"
  by (cases s) simp

lemma index_keys_iff:
  "(n, k) \<in> set (index_keys ks) \<longleftrightarrow> k \<in> set ks \<and> array_index k = Some n"
  by (auto simp: index_keys_def split: option.splits)

lemma set_own_keys [simp]: "set (own_keys s) = fst ` set (s_clients s)"
proof (rule set_eqI)
  fix k
  have "k \<in> set (own_keys s) \<longleftrightarrow>
          (\<exists>n. (n, k) \<in> set (index_keys (map fst (s_clients s)))) \<or>
          (k \<in> set (map fst (s_clients s)) \<and> array_index k = None)"
    by (force simp: own_keys_def Let_def image_iff)
  then show "k \<in> set (own_keys s) \<longleftrightarrow> k \<in> fst ` set (s_clients s)"
    unfolding index_keys_iff by (cases "array_index k") auto
qed

lemma for_in_heartbeat:
  assumes "k \<in> set (for_in_keys s)"
  shows "\<exists>h. client_heartbeat s k = Some h"
proof (cases "map_of (s_clients s) k")
  case (Some c)
  then show ?thesis by (simp add: client_heartbeat_def)
next
  case None
  then have "k \<notin> fst ` set (s_clients s)" by (simp add: map_of_eq_None_iff)
  with assms have "proto_heartbeat s \<noteq> None"
    by (auto simp: for_in_keys_def split: if_splits)
  with None show ?thesis by (auto simp: client_heartbeat_def)
qed

lemma stale_alt:
  "filter (\<lambda>k. \<not> (case client_heartbeat s k of Some h \<Rightarrow> now - h \<le> timeout | None \<Rightarrow> False))
     (for_in_keys s) = stale now timeout s"
  unfolding stale_def
  by (rule filter_cong [OF refl]) (auto dest: for_in_heartbeat)

lemma removeDeadClients_quiet:
  "quiet (removeDeadClients now s timeout) = quiet (killClients s (stale now timeout s))"
  by (simp add: removeDeadClients_def stale_alt Let_def fold_trace_log killClients_quiet)

lemma for_in_keys_log_delete [simp]:
  "for_in_keys (s\<lparr>effects := es\<rparr>) = for_in_keys s"
  by (simp add: for_in_keys_def own_keys_def)

lemma removeDeadClients_es6_quiet:
  "quiet (removeDeadClients_es6 now s timeout) = quiet (killClients s (stale now timeout s))"
  apply (simp add: removeDeadClients_es6_def stale_def [symmetric] Let_def fold_log_delete
      killClients_quiet remove_torrents_quiet fold_delete
      fold_drop_dead_quiet [where ?line0.0 = "\<lambda>t. InstanceDestroyed"])
  apply (simp add: quiet_def comp_def server_update_swap)
  done

subsection \<open>Evaluating the example states\<close>

lemmas eval_defs =
  receive_def touch_client_def handleAddTorrent_def handleSubscribe_def webtorrent_def
  join_swarm_def wt_add_def push_client_def upd_torrent_def sendSubscribed_def
  subscribed_response_def getInfoMessage_def getProgressMessage_def send_def emit_def
  trace_log_def find_infoHash_def WebTorrentRemoteServer_def parse_hex_def msg_def
  new_torrent_def clients_get_def inherited_def Let_def

lemma two_clients_fields:
  "s_clients two_clients =
     [(''a'', \<lparr>c_clientKey = ''a'', heartbeat = 0\<rparr>), (''b'', \<lparr>c_clientKey = ''b'', heartbeat = 0\<rparr>)]"
  "s_torrents two_clients = [0]"
  "s_webtorrent two_clients = Some \<lparr>wt_torrents = [0]\<rparr>"
  "next_addr two_clients = 1"
  "t_clients (heap two_clients 0) =
     [\<lparr>clientKey = ''a'', torrentKey = ''k1''\<rparr>, \<lparr>clientKey = ''b'', torrentKey = ''k2''\<rparr>]"
  "t_infoHash (heap two_clients 0) = Some hashX"
  "t_destroyed (heap two_clients 0) = False"
  "destroys (effects two_clients) = []"
  "joins (effects two_clients) = [0]"
  "count_list (effects two_clients) WtDestroy = 0"
  "proto_heartbeat two_clients = None"
  by (simp_all add: two_clients_def eval_defs)


lemma two_clients_consistent: "consistent two_clients"
  by (simp add: consistent_def two_clients_fields)


lemmas eval_defs_es6 =
  receive_es6_def handleAddTorrent_es6_def handleSubscribe_es6_def addClient_def
  getInfoMessage_es6_def assign_keys_def

lemma two_clients_es6_fields:
  "s_clients two_clients_es6 =
     [(''a'', \<lparr>c_clientKey = ''a'', heartbeat = 0\<rparr>), (''b'', \<lparr>c_clientKey = ''b'', heartbeat = 0\<rparr>)]"
  "s_torrents two_clients_es6 = [0]"
  "s_webtorrent two_clients_es6 = Some \<lparr>wt_torrents = [0]\<rparr>"
  "next_addr two_clients_es6 = 1"
  "t_clients (heap two_clients_es6 0) =
     [\<lparr>clientKey = ''a'', torrentKey = ''k1''\<rparr>, \<lparr>clientKey = ''b'', torrentKey = ''k2''\<rparr>]"
  "t_infoHash (heap two_clients_es6 0) = Some hashX"
  "t_destroyed (heap two_clients_es6 0) = False"
  "heartbeatTimeout (s_options two_clients_es6) = None"
  "joins (effects two_clients_es6) = [0]"
  by (simp_all add: two_clients_es6_def eval_defs eval_defs_es6)

lemma two_clients_options:
  "heartbeatTimeout (s_options two_clients) = None"
  by (simp add: two_clients_def eval_defs)

subsection \<open>The sweeper\<close>

lemma killClients_clients:
  "s_clients (killClients s ks) = filter (\<lambda>(k, c). k \<notin> set ks) (s_clients s)"
  by (cases "ks = []") (simp_all add: killClients_fields, simp add: killClients_def)

lemma quiet_clients: "quiet a = quiet b \<Longrightarrow> s_clients a = s_clients b"
  by (metis quiet_fields(1))

lemma own_key_for_in: "(k, c) \<in> set (s_clients s) \<Longrightarrow> k \<in> set (for_in_keys s)"
  by (force simp: for_in_keys_def)

lemma filter_not_stale:
  assumes "distinct (map fst (s_clients s))"
  shows "filter (\<lambda>(k, c). k \<notin> set (stale now timeout s)) (s_clients s) =
         filter (\<lambda>(k, c). \<not> now - heartbeat c > timeout) (s_clients s)"
proof (rule filter_cong [OF refl])
  fix x assume x: "x \<in> set (s_clients s)"
  obtain k c where kc: "x = (k, c)" by (cases x)
  from assms x kc have "map_of (s_clients s) k = Some c" by simp
  then have "client_heartbeat s k = Some (heartbeat c)" by (simp add: client_heartbeat_def)
  moreover from x kc have "k \<in> set (for_in_keys s)" by (simp add: own_key_for_in)
  ultimately have "k \<in> set (stale now timeout s) \<longleftrightarrow> now - heartbeat c > timeout"
    by (simp add: stale_def)
  then show "(case x of (k, c) \<Rightarrow> k \<notin> set (stale now timeout s)) =
             (case x of (k, c) \<Rightarrow> \<not> now - heartbeat c > timeout)"
    by (simp add: kc)
qed

lemma removeDeadClients_clients:
  assumes "distinct (map fst (s_clients s))"
  shows "s_clients (removeDeadClients now s timeout) =
           filter (\<lambda>(k, c). \<not> now - heartbeat c > timeout) (s_clients s)"
    and "s_clients (removeDeadClients_es6 now s timeout) =
           filter (\<lambda>(k, c). \<not> now - heartbeat c > timeout) (s_clients s)"
  using quiet_clients [OF removeDeadClients_quiet, of now s timeout]
    quiet_clients [OF removeDeadClients_es6_quiet, of now s timeout]
    filter_not_stale [OF assms, of now timeout]
  by (simp_all add: killClients_clients)

lemma fold_sendProgress_clients [simp]:
  "s_clients (fold (\<lambda>torrent s. sendProgress s torrent type) xs s) = s_clients s"
  by (induction xs arbitrary: s) (simp_all add: sendProgress_def sendToTorrentClients_eq)

text \<open>
  C9, as amended. On a sweep tick of part_000 the timeout is the option
  \<^verbatim>\<open>heartbeatTimeout\<close>, or 30000 ms when the option is unspecified; on a sweep tick of
  server.js there is no default, and an unspecified option disables expiry. In both
  files a zero or negative timeout disables expiry (the client registry is left as it
  is), and a positive timeout expires exactly the clients whose heartbeat age
  \<open>now - heartbeat\<close> strictly exceeds it.
\<close>

theorem sendUpdates_expiry:
  assumes "distinct (map fst (s_clients s))"
  shows
    "s_clients (sendUpdates now s) =
       (let timeout = (case heartbeatTimeout (s_options s) of None \<Rightarrow> 30000 | Some v \<Rightarrow> v)
        in if timeout > 0
           then filter (\<lambda>(k, c). \<not> now - heartbeat c > timeout) (s_clients s)
           else s_clients s)
     \<and> s_clients (sendUpdates_es6 now s) =
       (case heartbeatTimeout (s_options s) of
          None \<Rightarrow> s_clients s
        | Some timeout \<Rightarrow>
            if timeout > 0
            then filter (\<lambda>(k, c). \<not> now - heartbeat c > timeout) (s_clients s)
            else s_clients s)"
  by (simp add: sendUpdates_def sendUpdates_es6_def Let_def removeDeadClients_clients [OF assms]
      split: option.split)

text \<open>
  Two clients last heard at time 0, option unspecified: part_000 keeps both at time
  30000 and expires both at 30001; server.js keeps both at 30001, and expires both once
  the option is set to 30000; a timeout of 0 keeps both in part_000.
\<close>

theorem sendUpdates_expiry_witness:
  "distinct (map fst (s_clients two_clients))
   \<and> heartbeatTimeout (s_options two_clients) = None
   \<and> s_clients (sendUpdates 30000 two_clients) = s_clients two_clients
   \<and> s_clients (sendUpdates 30001 two_clients) = []
   \<and> s_clients (sendUpdates_es6 30001 two_clients) = s_clients two_clients
   \<and> s_clients (sendUpdates_es6 30001
        (two_clients\<lparr>s_options := (s_options two_clients)\<lparr>heartbeatTimeout := Some 30000\<rparr>\<rparr>)) = []
   \<and> s_clients (sendUpdates 30001
        (two_clients\<lparr>s_options := (s_options two_clients)\<lparr>heartbeatTimeout := Some 0\<rparr>\<rparr>))
       = s_clients two_clients"
  using sendUpdates_expiry [of two_clients 30000] sendUpdates_expiry [of two_clients 30001]
    sendUpdates_expiry [of "two_clients\<lparr>s_options := (s_options two_clients)\<lparr>heartbeatTimeout := Some 30000\<rparr>\<rparr>" 30001]
    sendUpdates_expiry [of "two_clients\<lparr>s_options := (s_options two_clients)\<lparr>heartbeatTimeout := Some 0\<rparr>\<rparr>" 30001]
  by (simp add: two_clients_fields two_clients_options)

text \<open>
  C9 as stated fails on server.js: with the option unspecified and both clients 40000 ms
  old, the tick of server.js expires nobody, where a default of 30000 ms would expire both.
\<close>

theorem sendUpdates_default_counterexample:
  "heartbeatTimeout (s_options two_clients_es6) = None
   \<and> map (\<lambda>(k, c). 40000 - heartbeat c) (s_clients two_clients_es6) = [40000, 40000]
   \<and> s_clients (sendUpdates_es6 40000 two_clients_es6) = s_clients two_clients_es6"
  by (simp add: two_clients_es6_fields sendUpdates_es6_def sendProgress_def sendToTorrentClients_eq)

subsection \<open>What the handlers leave alone\<close>

lemmas step_defs = emit_def send_def trace_log_def upd_torrent_def push_client_def
  sendSubscribed_def addClient_def

lemma run_callback_fields [simp]:
  "s_clients (run_callback cb s) = s_clients s"
  "s_torrents (run_callback cb s) = s_torrents s"
  "s_webtorrent (run_callback cb s) = s_webtorrent s"
  "s_options (run_callback cb s) = s_options s"
  "next_addr (run_callback cb s) = next_addr s"
  "heap (run_callback cb s) = heap s"
  "proto_heartbeat (run_callback cb s) = proto_heartbeat s"
  by (cases cb; simp add: step_defs)+

lemma fold_run_callback_fields [simp]:
  "s_clients (fold run_callback cbs s) = s_clients s"
  "s_torrents (fold run_callback cbs s) = s_torrents s"
  "s_webtorrent (fold run_callback cbs s) = s_webtorrent s"
  "s_options (fold run_callback cbs s) = s_options s"
  "next_addr (fold run_callback cbs s) = next_addr s"
  "heap (fold run_callback cbs s) = heap s"
  "proto_heartbeat (fold run_callback cbs s) = proto_heartbeat s"
  by (induction cbs arbitrary: s) simp_all

lemma createServer_fields [simp]:
  "s_clients (createServer t cb s) = s_clients s"
  "s_torrents (createServer t cb s) = s_torrents s"
  "s_webtorrent (createServer t cb s) = s_webtorrent s"
  "s_options (createServer t cb s) = s_options s"
  "next_addr (createServer t cb s) = next_addr s"
  "t_infoHash (heap (createServer t cb s) a) = t_infoHash (heap s a)"
  "t_destroyed (heap (createServer t cb s) a) = t_destroyed (heap s a)"
  "t_clients (heap (createServer t cb s) a) = t_clients (heap s a)"
  "proto_heartbeat (createServer t cb s) = proto_heartbeat s"
  by (simp_all add: createServer_def step_defs split: option.split)

lemma webtorrent_fields [simp]:
  "s_clients (snd (webtorrent s)) = s_clients s"
  "s_torrents (snd (webtorrent s)) = s_torrents s"
  "s_options (snd (webtorrent s)) = s_options s"
  "next_addr (snd (webtorrent s)) = next_addr s"
  "heap (snd (webtorrent s)) = heap s"
  "s_webtorrent (snd (webtorrent s)) = Some (fst (webtorrent s))"
  "fst (webtorrent s) = (case s_webtorrent s of None \<Rightarrow> \<lparr>wt_torrents = []\<rparr> | Some wt \<Rightarrow> wt)"
  "sent (effects (snd (webtorrent s))) = sent (effects s)"
  "proto_heartbeat (snd (webtorrent s)) = proto_heartbeat s"
  by (simp_all add: webtorrent_def step_defs Let_def split: option.split)

lemma for_in_keys_cong:
  "s_clients a = s_clients b \<Longrightarrow> proto_heartbeat a = proto_heartbeat b \<Longrightarrow>
   for_in_keys a = for_in_keys b"
  by (simp add: for_in_keys_def own_keys_def)

lemma for_in_keys_webtorrent [simp]: "for_in_keys (snd (webtorrent s)) = for_in_keys s"
  by (rule for_in_keys_cong) simp_all

lemma getTorrentByKey_fields [simp]:
  "s_clients (snd (getTorrentByKey s tk)) = s_clients s"
  "s_torrents (snd (getTorrentByKey s tk)) = s_torrents s"
  "s_options (snd (getTorrentByKey s tk)) = s_options s"
  "next_addr (snd (getTorrentByKey s tk)) = next_addr s"
  "heap (snd (getTorrentByKey s tk)) = heap s"
  "s_webtorrent (snd (getTorrentByKey s tk)) = Some (fst (webtorrent s))"
  "proto_heartbeat (snd (getTorrentByKey s tk)) = proto_heartbeat s"
  by (simp_all add: getTorrentByKey_def sendError_def sendToAllClients_eq split_beta
      split: option.split)

lemma getTorrentByKey_es6_fields [simp]:
  "s_clients (snd (getTorrentByKey_es6 s tk)) = s_clients s"
  "s_torrents (snd (getTorrentByKey_es6 s tk)) = s_torrents s"
  "s_options (snd (getTorrentByKey_es6 s tk)) = s_options s"
  "next_addr (snd (getTorrentByKey_es6 s tk)) = next_addr s"
  "heap (snd (getTorrentByKey_es6 s tk)) = heap s"
  "s_webtorrent (snd (getTorrentByKey_es6 s tk)) = Some (fst (webtorrent s))"
  by (simp_all add: getTorrentByKey_es6_def split_beta split: option.split)

lemma handleCreateServer_fields [simp]:
  "s_clients (handleCreateServer s m) = s_clients s"
  "s_torrents (handleCreateServer s m) = s_torrents s"
  "s_options (handleCreateServer s m) = s_options s"
  "next_addr (handleCreateServer s m) = next_addr s"
  "s_webtorrent (handleCreateServer s m) = Some (fst (webtorrent s))"
  "t_infoHash (heap (handleCreateServer s m) a) = t_infoHash (heap s a)"
  "t_destroyed (heap (handleCreateServer s m) a) = t_destroyed (heap s a)"
  "t_clients (heap (handleCreateServer s m) a) = t_clients (heap s a)"
  "proto_heartbeat (handleCreateServer s m) = proto_heartbeat s"
  by (simp_all add: handleCreateServer_def split_beta Let_def split: option.split)

lemma handleCreateServer_es6_fields [simp]:
  "s_clients (snd (handleCreateServer_es6 s m)) = s_clients s"
  "s_torrents (snd (handleCreateServer_es6 s m)) = s_torrents s"
  "s_options (snd (handleCreateServer_es6 s m)) = s_options s"
  "next_addr (snd (handleCreateServer_es6 s m)) = next_addr s"
  "s_webtorrent (snd (handleCreateServer_es6 s m)) = Some (fst (webtorrent s))"
  "t_infoHash (heap (snd (handleCreateServer_es6 s m)) a) = t_infoHash (heap s a)"
  "t_destroyed (heap (snd (handleCreateServer_es6 s m)) a) = t_destroyed (heap s a)"
  "t_clients (heap (snd (handleCreateServer_es6 s m)) a) = t_clients (heap s a)"
proof -
  obtain r s1 where g: "getTorrentByKey_es6 s (torrentKey m) = (r, s1)"
    by (cases "getTorrentByKey_es6 s (torrentKey m)")
  have s1: "s_clients s1 = s_clients s" "s_torrents s1 = s_torrents s"
    "s_options s1 = s_options s" "next_addr s1 = next_addr s" "heap s1 = heap s"
    "s_webtorrent s1 = Some (fst (webtorrent s))"
    using getTorrentByKey_es6_fields [of s "torrentKey m"] by (simp_all add: g)
  show "s_clients (snd (handleCreateServer_es6 s m)) = s_clients s"
    "s_torrents (snd (handleCreateServer_es6 s m)) = s_torrents s"
    "s_options (snd (handleCreateServer_es6 s m)) = s_options s"
    "next_addr (snd (handleCreateServer_es6 s m)) = next_addr s"
    "s_webtorrent (snd (handleCreateServer_es6 s m)) = Some (fst (webtorrent s))"
    "t_infoHash (heap (snd (handleCreateServer_es6 s m)) a) = t_infoHash (heap s a)"
    "t_destroyed (heap (snd (handleCreateServer_es6 s m)) a) = t_destroyed (heap s a)"
    "t_clients (heap (snd (handleCreateServer_es6 s m)) a) = t_clients (heap s a)"
    by (cases r; simp add: handleCreateServer_es6_def g s1 step_defs Let_def
        split: option.split)+
qed

lemma handleSubscribe_clients [simp]:
  "s_clients (snd (handleSubscribe pt s m)) = s_clients s"
  "s_clients (snd (handleSubscribe_es6 pt s m)) = s_clients s"
  by (simp_all add: handleSubscribe_def handleSubscribe_es6_def step_defs Let_def
      split: sum.split option.split)

lemma join_swarm_clients [simp]:
  "s_clients (snd (join_swarm pt tid s)) = s_clients s"
  by (simp add: join_swarm_def wt_add_def step_defs Let_def split_beta)

lemma handleAddTorrent_clients [simp]:
  "s_clients (snd (handleAddTorrent pt s m)) = s_clients s"
  "s_clients (snd (handleAddTorrent_es6 pt s m)) = s_clients s"
  by (simp_all add: handleAddTorrent_def handleAddTorrent_es6_def step_defs Let_def split_beta
      split: sum.split option.split)

lemma listening_clients [simp]:
  "s_clients (snd (listening a port s)) = s_clients s"
  "s_clients (snd (listening_es6 a port s)) = s_clients s"
  by (simp_all add: listening_def listening_es6_def step_defs Let_def fold_send
      split: option.split)

lemma proto_heartbeat_handlers [simp]:
  "proto_heartbeat (snd (handleSubscribe pt s m)) = proto_heartbeat s"
  "proto_heartbeat (snd (handleSubscribe_es6 pt s m)) = proto_heartbeat s"
  "proto_heartbeat (snd (join_swarm pt tid s)) = proto_heartbeat s"
  by (simp_all add: handleSubscribe_def handleSubscribe_es6_def join_swarm_def wt_add_def
      step_defs Let_def split_beta split: sum.split option.split)

lemma proto_heartbeat_listening [simp]:
  "proto_heartbeat (snd (listening a port s)) = proto_heartbeat s"
  "proto_heartbeat (snd (listening_es6 a port s)) = proto_heartbeat s"
  by (simp_all add: listening_def listening_es6_def step_defs Let_def fold_send
      split: option.split)

subsection \<open>The router\<close>

lemma touch_client_fields [simp]:
  "s_torrents (touch_client now lg s ck) = s_torrents s"
  "s_webtorrent (touch_client now lg s ck) = s_webtorrent s"
  "s_options (touch_client now lg s ck) = s_options s"
  "next_addr (touch_client now lg s ck) = next_addr s"
  "heap (touch_client now lg s ck) = heap s"
  "sent (effects (touch_client now lg s ck)) = sent (effects s)"
  "proto_heartbeat (touch_client now lg s ck) = proto_heartbeat s"
  by (simp_all add: touch_client_def step_defs Let_def)

lemma touch_client_clients:
  "s_clients (touch_client now lg s ck) =
     (if \<not> js_truthy (clients_get s ck)
      then s_clients s @ [(ck, \<lparr>c_clientKey = ck, heartbeat = now\<rparr>)]
      else s_clients s)"
  by (simp add: touch_client_def step_defs Let_def)

lemma touch_client_effects:
  "effects (touch_client now lg s ck) =
     effects s @
       (if \<not> js_truthy (clients_get s ck) \<and> lg \<and> trace (s_options s)
        then [ConsoleLog (AddingClient ck)] else [])"
  by (simp add: touch_client_def step_defs Let_def)

lemma own_entry_truthy:
  "map_of (s_clients s) ck = Some c \<Longrightarrow> js_truthy (clients_get s ck)"
  by (simp add: clients_get_def)

lemma clients_get_own [simp]:
  "map_of (s_clients s) ck = Some c \<Longrightarrow> clients_get s ck = OwnEntry c"
  by (simp add: clients_get_def)

lemma clients_get_not_own:
  "map_of (s_clients s) ck = None \<Longrightarrow> clients_get s ck \<noteq> OwnEntry c"
  by (simp add: clients_get_def split: option.split)

lemma touch_client_lookup:
  "map_of (s_clients (touch_client now lg s ck)) ck =
     (case map_of (s_clients s) ck of
        Some c \<Rightarrow> Some c
      | None \<Rightarrow> if js_truthy (clients_get s ck) then None
                else Some \<lparr>c_clientKey = ck, heartbeat = now\<rparr>)"
  by (auto simp: touch_client_clients map_add_def own_entry_truthy split: option.split)

lemma clients_get_touch:
  "clients_get (touch_client now lg s ck) ck =
     (case map_of (s_clients s) ck of
        Some c \<Rightarrow> OwnEntry c
      | None \<Rightarrow> if js_truthy (clients_get s ck) then clients_get s ck
                else OwnEntry \<lparr>c_clientKey = ck, heartbeat = now\<rparr>)"
  unfolding clients_get_def [of "touch_client now lg s ck"] touch_client_lookup
  by (auto simp: clients_get_def split: option.split)

lemma handleHeartbeat_clients:
  "s_clients (handleHeartbeat now s m) =
     (case map_of (s_clients s) (clientKey m) of
        Some c \<Rightarrow> AList.update (clientKey m) (c\<lparr>heartbeat := now\<rparr>) (s_clients s)
      | None \<Rightarrow> s_clients s)"
proof (cases "map_of (s_clients s) (clientKey m)")
  case None
  then have "\<And>c. clients_get s (clientKey m) \<noteq> OwnEntry c" by (rule clients_get_not_own)
  then show ?thesis
    by (cases "clients_get s (clientKey m)") (auto simp: handleHeartbeat_def emit_def None)
next
  case (Some c)
  then show ?thesis
    by (simp add: handleHeartbeat_def)
qed

lemma handleHeartbeat_lookup:
  "map_of (s_clients (handleHeartbeat now s m)) (clientKey m) =
     map_option (\<lambda>c. c\<lparr>heartbeat := now\<rparr>) (map_of (s_clients s) (clientKey m))"
  by (simp add: handleHeartbeat_clients update_conv' split: option.split)

lemma killClients_lookup:
  "map_of (s_clients (killClients s [ck])) ck = None"
proof -
  have "map_of (filter (\<lambda>(k, c). k \<noteq> ck) xs) ck = None" for xs :: "(string \<times> client) list"
    by (induction xs) auto
  then show ?thesis by (simp add: killClients_clients)
qed

lemma handleDestroy_lookup:
  "map_of (s_clients (handleDestroy s m)) (clientKey m) =
     (if (case m_options m of None \<Rightarrow> 0 | Some options \<Rightarrow>
            (case o_delay options of None \<Rightarrow> 0 | Some d \<Rightarrow> d)) \<noteq> 0
      then map_of (s_clients s) (clientKey m) else None)"
proof -
  have "map_of (s_clients (killClients (trace_log d s) [clientKey m])) (clientKey m) = None" for d
    by (rule killClients_lookup)
  then show ?thesis
    by (simp add: handleDestroy_def Let_def step_defs)
qed

text \<open>
  C4, as amended. For every inbound message, \<open>receive\<close> creates the client entry, with the
  current time as its heartbeat, before dispatch when the lookup
  \<^verbatim>\<open>this._clients[clientKey]\<close> is falsy, and leaves an existing entry as it is. The lookup
  is falsy for a client key that has no entry and is not a property name the registry
  object inherits; for an inherited name (\<^verbatim>\<open>constructor\<close>, \<^verbatim>\<open>toString\<close>, \<^verbatim>\<open>__proto__\<close>, ...)
  the lookup is truthy and no entry is created, by any message. The heartbeat of an
  existing entry is refreshed by a \<^verbatim>\<open>heartbeat\<close> message only: after \<^verbatim>\<open>subscribe\<close>,
  \<^verbatim>\<open>add-torrent\<close>, \<^verbatim>\<open>create-server\<close> and messages of unknown type it is the one the entry
  had before, also when the handler throws. (In part_000 a \<^verbatim>\<open>destroy\<close> message without
  delay removes the entry; with a delay the entry stays as \<open>receive\<close> found or created
  it.)
\<close>

theorem receive_touch:
  "(m_type m \<noteq> ''destroy'' \<longrightarrow>
      map_of (s_clients (snd (receive parseTorrent now s m))) (clientKey m) =
        (case map_of (s_clients s) (clientKey m) of
           Some c \<Rightarrow> Some (if m_type m = ''heartbeat'' then c\<lparr>heartbeat := now\<rparr> else c)
         | None \<Rightarrow>
             if js_truthy (clients_get s (clientKey m)) then None
             else Some \<lparr>c_clientKey = clientKey m, heartbeat = now\<rparr>))
   \<and> (m_type m = ''destroy'' \<longrightarrow>
      map_of (s_clients (snd (receive parseTorrent now s m))) (clientKey m) =
        (if (case m_options m of None \<Rightarrow> 0 | Some options \<Rightarrow>
               (case o_delay options of None \<Rightarrow> 0 | Some d \<Rightarrow> d)) \<noteq> 0
         then (case map_of (s_clients s) (clientKey m) of
                 Some c \<Rightarrow> Some c
               | None \<Rightarrow>
                   if js_truthy (clients_get s (clientKey m)) then None
                   else Some \<lparr>c_clientKey = clientKey m, heartbeat = now\<rparr>)
         else None))
   \<and> map_of (s_clients (snd (receive_es6 parseTorrent now s m))) (clientKey m) =
        (case map_of (s_clients s) (clientKey m) of
           Some c \<Rightarrow> Some (if m_type m = ''heartbeat'' then c\<lparr>heartbeat := now\<rparr> else c)
         | None \<Rightarrow>
             if js_truthy (clients_get s (clientKey m)) then None
             else Some \<lparr>c_clientKey = clientKey m, heartbeat = now\<rparr>)
   \<and> (inherited (clientKey m) \<and> map_of (s_clients s) (clientKey m) = None \<longrightarrow>
        js_truthy (clients_get s (clientKey m)))
   \<and> (\<not> inherited (clientKey m) \<and> clientKey m \<noteq> ''heartbeat'' \<and>
        map_of (s_clients s) (clientKey m) = None \<longrightarrow>
        \<not> js_truthy (clients_get s (clientKey m)))"
proof -
  let ?ck = "clientKey m"
  let ?touched = "case map_of (s_clients s) ?ck of
                    Some c \<Rightarrow> Some c
                  | None \<Rightarrow> if js_truthy (clients_get s ?ck) then None
                            else Some \<lparr>c_clientKey = ?ck, heartbeat = now\<rparr>"
  have t: "map_of (s_clients (touch_client now lg s ?ck)) ?ck = ?touched" for lg
    by (rule touch_client_lookup)
  have other: "s_clients (snd (receive parseTorrent now s m)) =
                 s_clients (touch_client now True s ?ck)"
    if "m_type m \<noteq> ''heartbeat''" "m_type m \<noteq> ''destroy''"
    using that by (simp add: receive_def Let_def emit_def)
  have other_es6: "s_clients (snd (receive_es6 parseTorrent now s m)) =
                     s_clients (touch_client now False s ?ck)"
    if "m_type m \<noteq> ''heartbeat''"
    using that by (simp add: receive_es6_def Let_def emit_def)
  have hb: "map_of (s_clients (snd (receive parseTorrent now s m))) ?ck =
              map_option (\<lambda>c. c\<lparr>heartbeat := now\<rparr>) ?touched"
    "map_of (s_clients (snd (receive_es6 parseTorrent now s m))) ?ck =
              map_option (\<lambda>c. c\<lparr>heartbeat := now\<rparr>) ?touched"
    if "m_type m = ''heartbeat''"
    using that by (simp_all add: receive_def receive_es6_def Let_def handleHeartbeat_lookup t)
  have ds: "map_of (s_clients (snd (receive parseTorrent now s m))) ?ck =
        (if (case m_options m of None \<Rightarrow> 0 | Some options \<Rightarrow>
               (case o_delay options of None \<Rightarrow> 0 | Some d \<Rightarrow> d)) \<noteq> 0
         then ?touched else None)"
    if "m_type m = ''destroy''"
    using that by (simp add: receive_def Let_def handleDestroy_lookup t)
  have 1: "m_type m \<noteq> ''destroy'' \<longrightarrow>
      map_of (s_clients (snd (receive parseTorrent now s m))) ?ck =
        (case map_of (s_clients s) ?ck of
           Some c \<Rightarrow> Some (if m_type m = ''heartbeat'' then c\<lparr>heartbeat := now\<rparr> else c)
         | None \<Rightarrow>
             if js_truthy (clients_get s ?ck) then None
             else Some \<lparr>c_clientKey = ?ck, heartbeat = now\<rparr>)"
  proof (cases "m_type m = ''heartbeat''")
    case True
    then show ?thesis by (simp add: hb(1) split: option.split)
  next
    case False
    then show ?thesis by (simp add: other t split: option.split)
  qed
  have 2: "map_of (s_clients (snd (receive_es6 parseTorrent now s m))) ?ck =
        (case map_of (s_clients s) ?ck of
           Some c \<Rightarrow> Some (if m_type m = ''heartbeat'' then c\<lparr>heartbeat := now\<rparr> else c)
         | None \<Rightarrow>
             if js_truthy (clients_get s ?ck) then None
             else Some \<lparr>c_clientKey = ?ck, heartbeat = now\<rparr>)"
  proof (cases "m_type m = ''heartbeat''")
    case True
    then show ?thesis by (simp add: hb(2) split: option.split)
  next
    case False
    then show ?thesis by (simp add: other_es6 t split: option.split)
  qed
  have 3: "inherited ?ck \<and> map_of (s_clients s) ?ck = None \<longrightarrow> js_truthy (clients_get s ?ck)"
    by (simp add: clients_get_def)
  have 4: "\<not> inherited ?ck \<and> ?ck \<noteq> ''heartbeat'' \<and> map_of (s_clients s) ?ck = None \<longrightarrow>
        \<not> js_truthy (clients_get s ?ck)"
    by (auto simp: clients_get_def inherited_def)
  from 1 ds 2 3 4 show ?thesis by blast
qed

text \<open>
  A new client \<open>c\<close> gets the time of its first message; a heartbeat of \<open>a\<close> refreshes
  \<open>a\<close>; \<^verbatim>\<open>create-server\<close> and \<^verbatim>\<open>add-torrent\<close> from \<open>a\<close> do not; a client that calls itself
  \<^verbatim>\<open>constructor\<close> gets no entry.
\<close>

theorem receive_touch_witness:
  "map_of (s_clients (snd (receive parse_hex 5000 two_clients
      (msg ''subscribe'' ''c'' ''k3'' (Some hashX))))) ''c'' =
     Some \<lparr>c_clientKey = ''c'', heartbeat = 5000\<rparr>
   \<and> map_of (s_clients (snd (receive parse_hex 5000 two_clients
      (msg ''heartbeat'' ''a'' [] None)))) ''a'' = Some \<lparr>c_clientKey = ''a'', heartbeat = 5000\<rparr>
   \<and> map_of (s_clients (snd (receive parse_hex 5000 two_clients
      (msg ''create-server'' ''a'' ''k1'' None)))) ''a'' = Some \<lparr>c_clientKey = ''a'', heartbeat = 0\<rparr>
   \<and> map_of (s_clients (snd (receive_es6 parse_hex 5000 two_clients_es6
      (msg ''add-torrent'' ''a'' ''k4'' (Some hashX))))) ''a'' = Some \<lparr>c_clientKey = ''a'', heartbeat = 0\<rparr>
   \<and> map_of (s_clients (snd (receive parse_hex 5000 two_clients
      (msg ''subscribe'' ''constructor'' ''k3'' (Some hashX))))) ''constructor'' = None"
  using receive_touch [of "msg ''subscribe'' ''c'' ''k3'' (Some hashX)" parse_hex 5000 two_clients]
    receive_touch [of "msg ''heartbeat'' ''a'' [] None" parse_hex 5000 two_clients]
    receive_touch [of "msg ''create-server'' ''a'' ''k1'' None" parse_hex 5000 two_clients]
    receive_touch [of "msg ''add-torrent'' ''a'' ''k4'' (Some hashX)" parse_hex 5000 two_clients_es6]
    receive_touch [of "msg ''subscribe'' ''constructor'' ''k3'' (Some hashX)" parse_hex 5000 two_clients]
  by (simp add: two_clients_fields two_clients_es6_fields msg_def clients_get_def inherited_def)

text \<open>
  C4 as stated fails in both files: client \<open>a\<close>, last heard at time 0, sends \<^verbatim>\<open>subscribe\<close>
  at time 5000, and its heartbeat is still 0 afterwards.
\<close>

theorem receive_refresh_counterexample:
  "map_of (s_clients two_clients) ''a'' = Some \<lparr>c_clientKey = ''a'', heartbeat = 0\<rparr>
   \<and> map_of (s_clients (snd (receive parse_hex 5000 two_clients
        (msg ''subscribe'' ''a'' ''k3'' (Some hashX))))) ''a''
       = Some \<lparr>c_clientKey = ''a'', heartbeat = 0\<rparr>
   \<and> map_of (s_clients (snd (receive_es6 parse_hex 5000 two_clients_es6
        (msg ''subscribe'' ''a'' ''k3'' (Some hashX))))) ''a''
       = Some \<lparr>c_clientKey = ''a'', heartbeat = 0\<rparr>"
  by (simp add: receive_def receive_es6_def touch_client_clients two_clients_fields
      two_clients_es6_fields msg_def Let_def clients_get_def)

text \<open>
  C8, as amended. For a message whose type is none of the recognised ones (five in
  part_000, four in server.js, where \<^verbatim>\<open>destroy\<close> is unknown too), \<open>receive\<close> does not
  throw, calls no handler and sends nothing; it prints one diagnostic on the error console
  (after the trace line for a new client, in part_000 with tracing on); swarm registry,
  engine reference, torrents and options are unchanged. The client registry is unchanged
  when the lookup \<^verbatim>\<open>this._clients[clientKey]\<close> is truthy (a known client key, or a property
  name the registry object inherits), and gets the entry of the sender, stamped with the
  current time, otherwise.
\<close>

theorem receive_unknown_type:
  "(m_type m \<notin> {''subscribe'', ''add-torrent'', ''create-server'', ''heartbeat'', ''destroy''} \<longrightarrow>
      fst (receive parseTorrent now s m) = None
      \<and> s_webtorrent (snd (receive parseTorrent now s m)) = s_webtorrent s
      \<and> s_torrents (snd (receive parseTorrent now s m)) = s_torrents s
      \<and> heap (snd (receive parseTorrent now s m)) = heap s
      \<and> next_addr (snd (receive parseTorrent now s m)) = next_addr s
      \<and> s_options (snd (receive parseTorrent now s m)) = s_options s
      \<and> proto_heartbeat (snd (receive parseTorrent now s m)) = proto_heartbeat s
      \<and> s_clients (snd (receive parseTorrent now s m)) =
          (if js_truthy (clients_get s (clientKey m)) then s_clients s
           else s_clients s @ [(clientKey m, \<lparr>c_clientKey = clientKey m, heartbeat = now\<rparr>)])
      \<and> effects (snd (receive parseTorrent now s m)) =
          effects s @
            (if \<not> js_truthy (clients_get s (clientKey m)) \<and> trace (s_options s)
             then [ConsoleLog (AddingClient (clientKey m))] else []) @
            [ConsoleError (IgnoringUnknownMessageType m)])
   \<and> (m_type m \<notin> {''subscribe'', ''add-torrent'', ''create-server'', ''heartbeat''} \<longrightarrow>
      fst (receive_es6 parseTorrent now s m) = None
      \<and> s_webtorrent (snd (receive_es6 parseTorrent now s m)) = s_webtorrent s
      \<and> s_torrents (snd (receive_es6 parseTorrent now s m)) = s_torrents s
      \<and> heap (snd (receive_es6 parseTorrent now s m)) = heap s
      \<and> next_addr (snd (receive_es6 parseTorrent now s m)) = next_addr s
      \<and> s_options (snd (receive_es6 parseTorrent now s m)) = s_options s
      \<and> proto_heartbeat (snd (receive_es6 parseTorrent now s m)) = proto_heartbeat s
      \<and> s_clients (snd (receive_es6 parseTorrent now s m)) =
          (if js_truthy (clients_get s (clientKey m)) then s_clients s
           else s_clients s @ [(clientKey m, \<lparr>c_clientKey = clientKey m, heartbeat = now\<rparr>)])
      \<and> effects (snd (receive_es6 parseTorrent now s m)) =
          effects s @ [ConsoleError (IgnoringUnknownMessageType m)])
   \<and> (js_truthy (clients_get s (clientKey m)) \<longleftrightarrow>
        (case map_of (s_clients s) (clientKey m) of
           Some c \<Rightarrow> True
         | None \<Rightarrow>
             inherited (clientKey m) \<or>
             (clientKey m = ''heartbeat'' \<and>
              (case proto_heartbeat s of Some h \<Rightarrow> h \<noteq> 0 | None \<Rightarrow> False))))"
proof -
  have 1: "m_type m \<notin> {''subscribe'', ''add-torrent'', ''create-server'', ''heartbeat'', ''destroy''} \<longrightarrow>
      fst (receive parseTorrent now s m) = None
      \<and> s_webtorrent (snd (receive parseTorrent now s m)) = s_webtorrent s
      \<and> s_torrents (snd (receive parseTorrent now s m)) = s_torrents s
      \<and> heap (snd (receive parseTorrent now s m)) = heap s
      \<and> next_addr (snd (receive parseTorrent now s m)) = next_addr s
      \<and> s_options (snd (receive parseTorrent now s m)) = s_options s
      \<and> proto_heartbeat (snd (receive parseTorrent now s m)) = proto_heartbeat s
      \<and> s_clients (snd (receive parseTorrent now s m)) =
          (if js_truthy (clients_get s (clientKey m)) then s_clients s
           else s_clients s @ [(clientKey m, \<lparr>c_clientKey = clientKey m, heartbeat = now\<rparr>)])
      \<and> effects (snd (receive parseTorrent now s m)) =
          effects s @
            (if \<not> js_truthy (clients_get s (clientKey m)) \<and> trace (s_options s)
             then [ConsoleLog (AddingClient (clientKey m))] else []) @
            [ConsoleError (IgnoringUnknownMessageType m)]"
    by (simp add: receive_def Let_def touch_client_clients touch_client_effects emit_def)
  have 2: "m_type m \<notin> {''subscribe'', ''add-torrent'', ''create-server'', ''heartbeat''} \<longrightarrow>
      fst (receive_es6 parseTorrent now s m) = None
      \<and> s_webtorrent (snd (receive_es6 parseTorrent now s m)) = s_webtorrent s
      \<and> s_torrents (snd (receive_es6 parseTorrent now s m)) = s_torrents s
      \<and> heap (snd (receive_es6 parseTorrent now s m)) = heap s
      \<and> next_addr (snd (receive_es6 parseTorrent now s m)) = next_addr s
      \<and> s_options (snd (receive_es6 parseTorrent now s m)) = s_options s
      \<and> proto_heartbeat (snd (receive_es6 parseTorrent now s m)) = proto_heartbeat s
      \<and> s_clients (snd (receive_es6 parseTorrent now s m)) =
          (if js_truthy (clients_get s (clientKey m)) then s_clients s
           else s_clients s @ [(clientKey m, \<lparr>c_clientKey = clientKey m, heartbeat = now\<rparr>)])
      \<and> effects (snd (receive_es6 parseTorrent now s m)) =
          effects s @ [ConsoleError (IgnoringUnknownMessageType m)]"
    by (simp add: receive_es6_def Let_def touch_client_clients touch_client_effects emit_def)
  have 3: "js_truthy (clients_get s (clientKey m)) \<longleftrightarrow>
        (case map_of (s_clients s) (clientKey m) of
           Some c \<Rightarrow> True
         | None \<Rightarrow>
             inherited (clientKey m) \<or>
             (clientKey m = ''heartbeat'' \<and>
              (case proto_heartbeat s of Some h \<Rightarrow> h \<noteq> 0 | None \<Rightarrow> False)))"
  proof (cases "map_of (s_clients s) (clientKey m)")
    case (Some c)
    then show ?thesis by simp
  next
    case None
    show ?thesis
    proof (cases "inherited (clientKey m)")
      case True
      with None show ?thesis by (simp add: clients_get_def)
    next
      case False
      then have "clientKey m \<noteq> ''__proto__''" by (auto simp: inherited_def)
      with None False show ?thesis
        by (cases "proto_heartbeat s") (simp_all add: clients_get_def)
    qed
  qed
  from 1 2 3 show ?thesis by blast
qed

text \<open>
  A message of type \<^verbatim>\<open>bogus\<close> from the known client \<open>a\<close> changes neither registry and
  sends nothing; so does \<^verbatim>\<open>destroy\<close> in server.js; and so does \<^verbatim>\<open>bogus\<close> from a sender that
  calls itself \<^verbatim>\<open>toString\<close>.
\<close>

theorem receive_unknown_type_witness:
  "fst (receive parse_hex 7 two_clients (msg ''bogus'' ''a'' ''k'' None)) = None
   \<and> s_clients (snd (receive parse_hex 7 two_clients (msg ''bogus'' ''a'' ''k'' None))) =
       s_clients two_clients
   \<and> sent (effects (snd (receive parse_hex 7 two_clients (msg ''bogus'' ''a'' ''k'' None)))) =
       sent (effects two_clients)
   \<and> s_torrents (snd (receive_es6 parse_hex 7 two_clients_es6 (msg ''destroy'' ''a'' ''k'' None)))
       = [0]
   \<and> s_clients (snd (receive_es6 parse_hex 7 two_clients_es6 (msg ''destroy'' ''a'' ''k'' None)))
       = s_clients two_clients_es6
   \<and> s_clients (snd (receive parse_hex 7 two_clients (msg ''bogus'' ''toString'' ''k'' None))) =
       s_clients two_clients"
  using receive_unknown_type [of "msg ''bogus'' ''a'' ''k'' None" parse_hex 7 two_clients]
    receive_unknown_type [of "msg ''destroy'' ''a'' ''k'' None" parse_hex 7 two_clients_es6]
    receive_unknown_type [of "msg ''bogus'' ''toString'' ''k'' None" parse_hex 7 two_clients]
  by (simp add: two_clients_fields two_clients_es6_fields msg_def clients_get_def inherited_def)

text \<open>
  C8 as stated fails in both files: a message of unknown type from the unseen client
  \<open>z\<close> creates the client entry of \<open>z\<close>.
\<close>

theorem receive_unknown_type_counterexample:
  "s_clients (WebTorrentRemoteServer None) = []
   \<and> s_clients (snd (receive parse_hex 7 (WebTorrentRemoteServer None)
        (msg ''bogus'' ''z'' ''k'' None))) = [(''z'', \<lparr>c_clientKey = ''z'', heartbeat = 7\<rparr>)]
   \<and> s_clients (snd (receive_es6 parse_hex 7 (WebTorrentRemoteServer None)
        (msg ''bogus'' ''z'' ''k'' None))) = [(''z'', \<lparr>c_clientKey = ''z'', heartbeat = 7\<rparr>)]"
  by (simp add: receive_def receive_es6_def touch_client_clients msg_def Let_def emit_def
      WebTorrentRemoteServer_def clients_get_def inherited_def)

subsection \<open>Subscribing\<close>

lemma handleSubscribe_parse_error:
  assumes "parseTorrent (m_torrentID m) = Inl e"
  shows "handleSubscribe parseTorrent s m = (Some e, s)"
    and "handleSubscribe_es6 parseTorrent s m = (Some e, s)"
  using assms by (simp_all add: handleSubscribe_def handleSubscribe_es6_def Let_def)

lemma handleSubscribe_not_joined:
  assumes "parseTorrent (m_torrentID m) = Inr p"
    and "case s_webtorrent s of
           None \<Rightarrow> True
         | Some wt \<Rightarrow> find_infoHash s (pt_infoHash p) (wt_torrents wt) = None"
  shows "handleSubscribe parseTorrent s m =
           (None, s\<lparr>effects := effects s @
              [Send \<lparr>o_type = ''torrent-subscribed'', o_torrent = Null, o_error = None,
                     o_serverURL = None, o_clientKey = Some (clientKey m),
                     o_torrentKey = Some (torrentKey m)\<rparr>]\<rparr>)"
    and "handleSubscribe_es6 parseTorrent s m =
           (None, s\<lparr>effects := effects s @
              [Send \<lparr>o_type = ''torrent-subscribed'', o_torrent = Null, o_error = None,
                     o_serverURL = None, o_clientKey = Some (clientKey m),
                     o_torrentKey = Some (torrentKey m)\<rparr>]\<rparr>)"
  using assms
  by (simp_all add: handleSubscribe_def handleSubscribe_es6_def Let_def step_defs
      subscribed_response_def split: option.splits)

text \<open>
  C5. The claim is that a \<^verbatim>\<open>subscribe\<close> whose identifier is absent, malformed or not yet
  joined is answered with \<^verbatim>\<open>torrent-subscribed\<close> and a null torrent, without a crash and
  without creating the engine. For an identifier that parses and is not joined this is
  \<open>handleSubscribe_not_joined\<close>. For an identifier on which \<^verbatim>\<open>parseTorrent\<close> throws, the
  handler of either file has no \<^verbatim>\<open>try\<close> around the call, so the exception leaves
  \<open>receive\<close> and nothing is sent (\<open>handleSubscribe_parse_error\<close>), although the comment
  above \<^verbatim>\<open>handleSubscribe\<close> promises the null response for a missing identifier. The
  theorem evaluates both files on a \<^verbatim>\<open>subscribe\<close> without identifier.
\<close>

theorem handleSubscribe_absent_id_throws:
  "handleSubscribe parse_hex (WebTorrentRemoteServer None) (msg ''subscribe'' ''a'' ''k1'' None) =
     (Some (Error ''Invalid torrent identifier''), WebTorrentRemoteServer None)
   \<and> handleSubscribe_es6 parse_hex (WebTorrentRemoteServer None)
       (msg ''subscribe'' ''a'' ''k1'' None) =
     (Some (Error ''Invalid torrent identifier''), WebTorrentRemoteServer None)
   \<and> fst (receive parse_hex 0 (WebTorrentRemoteServer None) (msg ''subscribe'' ''a'' ''k1'' None))
       = Some (Error ''Invalid torrent identifier'')
   \<and> sent (effects (snd (receive parse_hex 0 (WebTorrentRemoteServer None)
        (msg ''subscribe'' ''a'' ''k1'' None)))) = []"
  by (simp add: handleSubscribe_parse_error [where e = "Error ''Invalid torrent identifier''"]
      parse_hex_def msg_def receive_def Let_def WebTorrentRemoteServer_def emit_def
      touch_client_def trace_log_def clients_get_def inherited_def)

subsection \<open>Lookup by torrent key\<close>

lemma listens_append [simp]: "listens (xs @ ys) = listens xs @ listens ys"
  by (induction xs) (simp_all split: effect.splits)

lemma listens_map_Send [simp]: "listens (map (\<lambda>c. Send (f c)) xs) = []"
  by (induction xs) simp_all

lemma hasTorrentKey_iff:
  "hasTorrentKey t tk \<longleftrightarrow> (\<exists>c \<in> set (t_clients t). torrentKey c = tk)"
  by (simp add: hasTorrentKey_def list_ex_iff)

lemma engine_list_consistent:
  "consistent s \<Longrightarrow> wt_torrents (fst (webtorrent s)) = s_torrents s"
  by (simp add: consistent_def split: option.splits)

lemma getTorrentByKey_result:
  "fst (getTorrentByKey s tk) =
     find (\<lambda>t. hasTorrentKey (heap s t) tk) (wt_torrents (fst (webtorrent s)))"
  "fst (getTorrentByKey_es6 s tk) =
     (case find (\<lambda>t. hasTorrentKey (heap s t) tk) (wt_torrents (fst (webtorrent s))) of
        None \<Rightarrow> Inl (Error (''Missing torrentKey: '' @ tk))
      | Some t \<Rightarrow> Inr t)"
  by (simp_all add: getTorrentByKey_def getTorrentByKey_es6_def split_beta Let_def
      del: webtorrent_fields(7) split: option.split)

lemma getTorrentByKey_missing:
  assumes "find (\<lambda>t. hasTorrentKey (heap s t) tk) (wt_torrents (fst (webtorrent s))) = None"
  shows "getTorrentByKey s tk =
           (None, (snd (webtorrent s))
              \<lparr>effects := effects (snd (webtorrent s)) @
                 map (\<lambda>k. Send (missing_key_warning tk k)) (for_in_keys s)\<rparr>)"
    and "getTorrentByKey_es6 s tk = (Inl (Error (''Missing torrentKey: '' @ tk)), snd (webtorrent s))"
  using assms
  by (simp_all add: getTorrentByKey_def getTorrentByKey_es6_def split_beta Let_def sendError_def
      sendToAllClients_eq missing_key_warning_def del: webtorrent_fields(7))

lemma find_registered:
  assumes "consistent s"
  shows "find (\<lambda>t. hasTorrentKey (heap s t) tk) (wt_torrents (fst (webtorrent s))) = None
         \<longleftrightarrow> (\<forall>a \<in> set (s_torrents s). \<not> hasTorrentKey (heap s a) tk)"
  by (auto simp: engine_list_consistent [OF assms] find_None_iff simp del: webtorrent_fields(7))

lemma not_truthy_not_own:
  "\<not> js_truthy (clients_get s ck) \<Longrightarrow> ck \<notin> fst ` set (s_clients s)"
  by (cases "map_of (s_clients s) ck") (simp_all add: map_of_eq_None_iff)

lemma touch_client_consistent:
  "consistent s \<Longrightarrow> consistent (touch_client now lg s ck)"
  by (auto simp: consistent_def touch_client_clients dest: not_truthy_not_own
      split: option.splits)

lemma for_in_keys_effects [simp]: "for_in_keys (s\<lparr>effects := es\<rparr>) = for_in_keys s"
  by (rule for_in_keys_cong) simp_all

lemma requester_enumerated:
  "ck \<in> set (for_in_keys (touch_client now lg s ck)) \<longleftrightarrow>
     map_of (s_clients s) ck \<noteq> None \<or> \<not> inherited ck"
proof (cases "map_of (s_clients s) ck")
  case (Some c)
  then have "(ck, c) \<in> set (s_clients s)" by (rule map_of_SomeD)
  then have "ck \<in> fst ` set (s_clients (touch_client now lg s ck))"
    by (force simp: touch_client_clients)
  with Some show ?thesis by (simp add: for_in_keys_def)
next
  case None
  then have own: "ck \<notin> fst ` set (s_clients s)" by (simp add: map_of_eq_None_iff)
  show ?thesis
  proof (cases "js_truthy (clients_get s ck)")
    case False
    then have "\<not> inherited ck" using None by (auto simp: clients_get_def split: if_splits)
    with False None show ?thesis by (simp add: for_in_keys_def touch_client_clients)
  next
    case True
    show ?thesis
    proof (cases "inherited ck")
      case i: True
      then have "ck \<noteq> ''heartbeat''" by (auto simp: inherited_def)
      with True None own i show ?thesis
        by (simp add: for_in_keys_def touch_client_clients)
    next
      case i: False
      then have "ck \<noteq> ''__proto__''" by (auto simp: inherited_def)
      with True None i have "ck = ''heartbeat'' \<and> proto_heartbeat s \<noteq> None"
        by (auto simp: clients_get_def split: if_splits option.splits)
      with True None own i show ?thesis
        by (simp add: for_in_keys_def touch_client_clients)
    qed
  qed
qed

text \<open>
  C7, as amended. A \<^verbatim>\<open>create-server\<close> message whose torrent key is on no subscription of
  any registered swarm, received in a consistent state. In part_000 \<open>receive\<close> does not
  throw; swarm registry and torrents are unchanged, and the client registry is changed only
  by the entry \<open>receive\<close> itself creates for a sender whose lookup
  \<^verbatim>\<open>this._clients[clientKey]\<close> is falsy; the engine is created if it was absent; one
  warning is sent for every key that \<^verbatim>\<open>for ... in\<close> enumerates on the client registry, in
  the order of that enumeration (\<open>for_in_keys\<close>: keys that are array indices first, in
  ascending numeric order, then the other keys in the order of their creation), each
  carrying that key as client key; the requester is among them unless its client key is a
  property name the registry object inherits and has no entry; no \<^verbatim>\<open>server-ready\<close> is sent
  and no \<^verbatim>\<open>listen\<close> is started. In server.js \<open>getTorrentByKey\<close> throws
  \<^verbatim>\<open>Missing torrentKey\<close> out of \<open>receive\<close>, after the same lazy creation of the engine, and
  nothing is sent.
\<close>

theorem create_server_unknown_key:
  assumes "m_type m = ''create-server''" and "consistent s"
    and "\<forall>a \<in> set (s_torrents s). \<not> hasTorrentKey (heap s a) (torrentKey m)"
  shows
    "fst (receive parseTorrent now s m) = None
     \<and> s_torrents (snd (receive parseTorrent now s m)) = s_torrents s
     \<and> heap (snd (receive parseTorrent now s m)) = heap s
     \<and> s_clients (snd (receive parseTorrent now s m)) =
         (if js_truthy (clients_get s (clientKey m)) then s_clients s
          else s_clients s @ [(clientKey m, \<lparr>c_clientKey = clientKey m, heartbeat = now\<rparr>)])
     \<and> proto_heartbeat (snd (receive parseTorrent now s m)) = proto_heartbeat s
     \<and> s_webtorrent (snd (receive parseTorrent now s m)) =
         Some (case s_webtorrent s of None \<Rightarrow> \<lparr>wt_torrents = []\<rparr> | Some wt \<Rightarrow> wt)
     \<and> sent (effects (snd (receive parseTorrent now s m))) =
         sent (effects s) @
           map (missing_key_warning (torrentKey m))
             (for_in_keys (snd (receive parseTorrent now s m)))
     \<and> (clientKey m \<in> set (for_in_keys (snd (receive parseTorrent now s m))) \<longleftrightarrow>
          map_of (s_clients s) (clientKey m) \<noteq> None \<or> \<not> inherited (clientKey m))
     \<and> listens (effects (snd (receive parseTorrent now s m))) = listens (effects s)
     \<and> fst (receive_es6 parseTorrent now s m) =
         Some (Error (''Missing torrentKey: '' @ torrentKey m))
     \<and> s_torrents (snd (receive_es6 parseTorrent now s m)) = s_torrents s
     \<and> heap (snd (receive_es6 parseTorrent now s m)) = heap s
     \<and> s_webtorrent (snd (receive_es6 parseTorrent now s m)) =
         Some (case s_webtorrent s of None \<Rightarrow> \<lparr>wt_torrents = []\<rparr> | Some wt \<Rightarrow> wt)
     \<and> sent (effects (snd (receive_es6 parseTorrent now s m))) = sent (effects s)"
proof -
  let ?s1 = "touch_client now True s (clientKey m)"
  let ?s2 = "touch_client now False s (clientKey m)"
  let ?r = "snd (receive parseTorrent now s m)"
  have c: "consistent (touch_client now lg s (clientKey m))" for lg
    using assms(2) by (rule touch_client_consistent)
  have n: "find (\<lambda>t. hasTorrentKey (heap (touch_client now lg s (clientKey m)) t) (torrentKey m))
             (wt_torrents (fst (webtorrent (touch_client now lg s (clientKey m))))) = None" for lg
    using assms(3) find_registered [OF c [of lg], of "torrentKey m"]
    by (simp del: webtorrent_fields(7))
  note g = getTorrentByKey_missing [OF n]
  have l: "listens (effects (snd (webtorrent x))) = listens (effects x)" for x
    by (simp add: webtorrent_def step_defs Let_def split: option.split)
  have t: "listens (effects (touch_client now lg s ck)) = listens (effects s)" for lg ck
    by (simp add: touch_client_effects)
  have r: "receive parseTorrent now s m =
             (None, (snd (webtorrent ?s1))
                \<lparr>effects := effects (snd (webtorrent ?s1)) @
                   map (\<lambda>k. Send (missing_key_warning (torrentKey m) k)) (for_in_keys ?s1)\<rparr>)"
    using assms(1) by (simp add: receive_def Let_def handleCreateServer_def g(1))
  have r6: "receive_es6 parseTorrent now s m =
              (Some (Error (''Missing torrentKey: '' @ torrentKey m)), snd (webtorrent ?s2))"
    using assms(1) by (simp add: receive_es6_def Let_def handleCreateServer_es6_def g(2))
  have k: "for_in_keys ?r = for_in_keys ?s1"
    unfolding r by simp
  have 1: "fst (receive parseTorrent now s m) = None" by (simp add: r)
  have 2: "s_torrents ?r = s_torrents s" by (simp add: r)
  have 3: "heap ?r = heap s" by (simp add: r)
  have 4: "s_clients ?r =
         (if js_truthy (clients_get s (clientKey m)) then s_clients s
          else s_clients s @ [(clientKey m, \<lparr>c_clientKey = clientKey m, heartbeat = now\<rparr>)])"
    by (simp add: r touch_client_clients)
  have ph: "proto_heartbeat ?r = proto_heartbeat s" by (simp add: r)
  have 5: "s_webtorrent ?r =
         Some (case s_webtorrent s of None \<Rightarrow> \<lparr>wt_torrents = []\<rparr> | Some wt \<Rightarrow> wt)"
    by (simp add: r)
  have 6: "sent (effects ?r) =
         sent (effects s) @ map (missing_key_warning (torrentKey m)) (for_in_keys ?r)"
    unfolding k by (simp add: r comp_def)
  have 7: "clientKey m \<in> set (for_in_keys ?r) \<longleftrightarrow>
          map_of (s_clients s) (clientKey m) \<noteq> None \<or> \<not> inherited (clientKey m)"
    unfolding k by (rule requester_enumerated)
  have 8: "listens (effects ?r) = listens (effects s)"
    by (simp add: r l t)
  have 9: "fst (receive_es6 parseTorrent now s m) =
         Some (Error (''Missing torrentKey: '' @ torrentKey m))"
    by (simp add: r6)
  have 10: "s_torrents (snd (receive_es6 parseTorrent now s m)) = s_torrents s"
    "heap (snd (receive_es6 parseTorrent now s m)) = heap s"
    "s_webtorrent (snd (receive_es6 parseTorrent now s m)) =
         Some (case s_webtorrent s of None \<Rightarrow> \<lparr>wt_torrents = []\<rparr> | Some wt \<Rightarrow> wt)"
    "sent (effects (snd (receive_es6 parseTorrent now s m))) = sent (effects s)"
    by (simp_all add: r6)
  from 1 2 3 4 ph 5 6 7 8 9 10 show ?thesis by blast
qed

lemmas order_defs = for_in_keys_def own_keys_def index_keys_def array_index_def digit_of_def

lemma two_clients_sent:
  "sent (effects two_clients) =
     [subscribed_response two_clients (Some 0) ''a'' ''k1''
        \<lparr>o_torrent := Present (Snapshot
            \<lparr>i_key = None, i_name = None, i_infohash = Some hashX, i_length = None,
             i_serverURL = None, i_files = []\<rparr>
            \<lparr>pr_progress = 0, pr_downloaded = 0, pr_uploaded = 0, pr_length = None,
             pr_downloadSpeed = 0, pr_uploadSpeed = 0, pr_ratio = 0, pr_numPeers = 0,
             pr_timeRemaining = 0\<rparr>)\<rparr>,
      subscribed_response two_clients (Some 0) ''b'' ''k2'']"
  by (simp add: two_clients_def eval_defs)

lemma numbered_clients_fields:
  "s_clients numbered_clients =
     [(''10'', \<lparr>c_clientKey = ''10'', heartbeat = 0\<rparr>), (''2'', \<lparr>c_clientKey = ''2'', heartbeat = 0\<rparr>)]"
  "s_torrents numbered_clients = [0]"
  "s_webtorrent numbered_clients = Some \<lparr>wt_torrents = [0]\<rparr>"
  "next_addr numbered_clients = 1"
  "t_clients (heap numbered_clients 0) =
     [\<lparr>clientKey = ''10'', torrentKey = ''k1''\<rparr>, \<lparr>clientKey = ''2'', torrentKey = ''k2''\<rparr>]"
  "t_infoHash (heap numbered_clients 0) = Some hashX"
  "t_destroyed (heap numbered_clients 0) = False"
  "proto_heartbeat numbered_clients = None"
  "length (sent (effects numbered_clients)) = 2"
  by (simp_all add: numbered_clients_def eval_defs)

lemma numbered_clients_consistent: "consistent numbered_clients"
  by (simp add: consistent_def numbered_clients_fields)

lemma for_in_keys_examples:
  "for_in_keys two_clients = [''a'', ''b'']"
  "for_in_keys numbered_clients = [''2'', ''10'']"
  by (simp_all add: order_defs two_clients_fields numbered_clients_fields)

text \<open>
  Client \<open>a\<close> asks for a server under the unknown key \<open>nope\<close>: after the two responses
  already in the log, part_000 sends the warning to \<open>a\<close> and to \<open>b\<close>; server.js throws.
  With the clients \<open>10\<close> and \<open>2\<close>, registered in that order, the warning goes to \<open>2\<close>
  first. When the requester calls itself \<^verbatim>\<open>constructor\<close>, the warning goes to \<open>a\<close> and
  \<open>b\<close> and not to the requester.
\<close>

theorem create_server_unknown_key_witness:
  "m_type (msg ''create-server'' ''a'' ''nope'' None) = ''create-server''
   \<and> consistent two_clients
   \<and> \<not> hasTorrentKey (heap two_clients 0) ''nope''
   \<and> fst (receive parse_hex 9 two_clients (msg ''create-server'' ''a'' ''nope'' None)) = None
   \<and> s_torrents (snd (receive parse_hex 9 two_clients (msg ''create-server'' ''a'' ''nope'' None)))
       = [0]
   \<and> drop 2 (sent (effects (snd (receive parse_hex 9 two_clients
        (msg ''create-server'' ''a'' ''nope'' None))))) =
       [missing_key_warning ''nope'' ''a'', missing_key_warning ''nope'' ''b'']
   \<and> fst (receive_es6 parse_hex 9 two_clients (msg ''create-server'' ''a'' ''nope'' None)) =
       Some (Error ''Missing torrentKey: nope'')
   \<and> consistent numbered_clients
   \<and> \<not> hasTorrentKey (heap numbered_clients 0) ''nope''
   \<and> drop 2 (sent (effects (snd (receive parse_hex 9 numbered_clients
        (msg ''create-server'' ''10'' ''nope'' None))))) =
       [missing_key_warning ''nope'' ''2'', missing_key_warning ''nope'' ''10'']
   \<and> drop 2 (sent (effects (snd (receive parse_hex 9 two_clients
        (msg ''create-server'' ''constructor'' ''nope'' None))))) =
       [missing_key_warning ''nope'' ''a'', missing_key_warning ''nope'' ''b'']"
proof -
  have h: "\<forall>a \<in> set (s_torrents two_clients).
             \<not> hasTorrentKey (heap two_clients a) (torrentKey (msg ''create-server'' ck ''nope'' None))"
    for ck
    by (simp add: two_clients_fields hasTorrentKey_def msg_def)
  have h': "\<forall>a \<in> set (s_torrents numbered_clients).
             \<not> hasTorrentKey (heap numbered_clients a) (torrentKey (msg ''create-server'' ck ''nope'' None))"
    for ck
    by (simp add: numbered_clients_fields hasTorrentKey_def msg_def)
  have t: "m_type (msg ''create-server'' ck ''nope'' None) = ''create-server''" for ck
    by (simp add: msg_def)
  have tr: "js_truthy (clients_get two_clients (clientKey (msg ''create-server'' ''a'' ''nope'' None)))"
    "js_truthy (clients_get two_clients (clientKey (msg ''create-server'' ''constructor'' ''nope'' None)))"
    "js_truthy (clients_get numbered_clients (clientKey (msg ''create-server'' ''10'' ''nope'' None)))"
    by (simp_all add: clients_get_def inherited_def msg_def two_clients_fields
        numbered_clients_fields)
  have k: "s_clients x = s_clients y \<Longrightarrow> proto_heartbeat x = proto_heartbeat y \<Longrightarrow>
           for_in_keys x = for_in_keys y" for x y
    by (rule for_in_keys_cong)
  note a = create_server_unknown_key [where m = "msg ''create-server'' ''a'' ''nope'' None"
      and s = two_clients and parseTorrent = parse_hex and now = 9,
      OF t two_clients_consistent h]
  note b = create_server_unknown_key [where m = "msg ''create-server'' ''10'' ''nope'' None"
      and s = numbered_clients and parseTorrent = parse_hex and now = 9,
      OF t numbered_clients_consistent h']
  note c = create_server_unknown_key [where m = "msg ''create-server'' ''constructor'' ''nope'' None"
      and s = two_clients and parseTorrent = parse_hex and now = 9,
      OF t two_clients_consistent h]
  have ka: "for_in_keys (snd (receive parse_hex 9 two_clients (msg ''create-server'' ''a'' ''nope'' None)))
            = for_in_keys two_clients"
    using a tr(1) by (intro for_in_keys_cong) simp_all
  have kb: "for_in_keys (snd (receive parse_hex 9 numbered_clients (msg ''create-server'' ''10'' ''nope'' None)))
            = for_in_keys numbered_clients"
    using b tr(3) by (intro for_in_keys_cong) simp_all
  have kc: "for_in_keys (snd (receive parse_hex 9 two_clients (msg ''create-server'' ''constructor'' ''nope'' None)))
            = for_in_keys two_clients"
    using c tr(2) by (intro for_in_keys_cong) simp_all
  have tk: "torrentKey (msg ''create-server'' ck ''nope'' None) = ''nope''" for ck
    by (simp add: msg_def)
  show ?thesis
    using a b c h [of "''a''"] h' [of "''a''"]
    unfolding ka kb kc tk for_in_keys_examples
    by (simp add: two_clients_fields two_clients_consistent two_clients_sent
        numbered_clients_fields numbered_clients_consistent t)
qed

text \<open>
  C7 as stated fails: when \<open>b\<close> sends the request, part_000 sends a warning to client
  \<open>a\<close> as well, not only to the requester; on a fresh server the request creates the engine
  instance; and server.js throws.
\<close>

theorem create_server_unknown_key_counterexample:
  "drop 2 (sent (effects (snd (receive parse_hex 9 two_clients
      (msg ''create-server'' ''b'' ''nope'' None))))) =
     [missing_key_warning ''nope'' ''a'', missing_key_warning ''nope'' ''b'']
   \<and> o_clientKey (missing_key_warning ''nope'' ''a'') = Some ''a''
   \<and> s_webtorrent (WebTorrentRemoteServer None) = None
   \<and> s_webtorrent (snd (receive parse_hex 9 (WebTorrentRemoteServer None)
        (msg ''create-server'' ''b'' ''nope'' None))) = Some \<lparr>wt_torrents = []\<rparr>
   \<and> fst (receive_es6 parse_hex 9 two_clients_es6 (msg ''create-server'' ''b'' ''nope'' None)) =
       Some (Error ''Missing torrentKey: nope'')"
proof -
  have 1: "drop 2 (sent (effects (snd (receive parse_hex 9 two_clients
      (msg ''create-server'' ''b'' ''nope'' None))))) =
     [missing_key_warning ''nope'' ''a'', missing_key_warning ''nope'' ''b'']"
    by (simp add: receive_def Let_def handleCreateServer_def getTorrentByKey_def webtorrent_def
      touch_client_def sendError_def sendToAllClients_eq hasTorrentKey_def
      two_clients_fields two_clients_sent msg_def clients_get_def order_defs
      missing_key_warning_def step_defs)
  have 2: "s_webtorrent (snd (receive parse_hex 9 (WebTorrentRemoteServer None)
        (msg ''create-server'' ''b'' ''nope'' None))) = Some \<lparr>wt_torrents = []\<rparr>"
    by (simp add: receive_def Let_def msg_def WebTorrentRemoteServer_def emit_def)
  have 3: "fst (receive_es6 parse_hex 9 two_clients_es6 (msg ''create-server'' ''b'' ''nope'' None)) =
       Some (Error ''Missing torrentKey: nope'')"
    by (simp add: receive_es6_def Let_def handleCreateServer_es6_def getTorrentByKey_es6_def
      webtorrent_def touch_client_def hasTorrentKey_def two_clients_es6_fields msg_def
      clients_get_def step_defs)
  have 4: "s_webtorrent (WebTorrentRemoteServer None) = None"
    by (simp add: WebTorrentRemoteServer_def emit_def)
  from 1 2 3 4 show ?thesis
    by (simp add: missing_key_warning_def)
qed

text \<open>
  C10, as amended. In a consistent state \<open>getTorrentByKey\<close> (of either file) finds a
  swarm for a torrent key if and only if some subscription on some registered swarm
  carries that key, and the swarm it returns is registered and carries it. Consequently,
  after the teardown for a non-empty list of client keys, a torrent key resolves if and
  only if a subscription that the teardown keeps carries it (one whose lookup
  \<^verbatim>\<open>deadClientKeys[c.clientKey]\<close> is falsy, \<open>dead_key\<close>; no such subscription belongs to a
  client of the list): a removed client's key stops resolving unless a surviving
  subscription uses the same key.
\<close>

theorem lookup_by_torrent_key:
  assumes "consistent s"
  shows
    "(fst (getTorrentByKey s tk) \<noteq> None \<longleftrightarrow>
        (\<exists>a \<in> set (s_torrents s). \<exists>c \<in> set (t_clients (heap s a)). torrentKey c = tk))
     \<and> ((\<exists>a. fst (getTorrentByKey_es6 s tk) = Inr a) \<longleftrightarrow>
        (\<exists>a \<in> set (s_torrents s). \<exists>c \<in> set (t_clients (heap s a)). torrentKey c = tk))
     \<and> (\<forall>a. fst (getTorrentByKey s tk) = Some a \<or> fst (getTorrentByKey_es6 s tk) = Inr a \<longrightarrow>
          a \<in> set (s_torrents s) \<and> (\<exists>c \<in> set (t_clients (heap s a)). torrentKey c = tk))
     \<and> (clientKeys \<noteq> [] \<longrightarrow>
          (fst (getTorrentByKey (killClients s clientKeys) tk) \<noteq> None \<longleftrightarrow>
             (\<exists>a \<in> set (s_torrents s). \<exists>c \<in> set (t_clients (heap s a)).
                 torrentKey c = tk \<and> \<not> dead_key (proto_heartbeat s) clientKeys (clientKey c))))
     \<and> (clientKeys \<noteq> [] \<longrightarrow>
          ((\<exists>a. fst (getTorrentByKey_es6 (killClients s clientKeys) tk) = Inr a) \<longleftrightarrow>
             (\<exists>a \<in> set (s_torrents s). \<exists>c \<in> set (t_clients (heap s a)).
                 torrentKey c = tk \<and> \<not> dead_key (proto_heartbeat s) clientKeys (clientKey c))))
     \<and> (\<forall>k \<in> set clientKeys. dead_key (proto_heartbeat s) clientKeys k)"
proof -
  have iff: "(find (\<lambda>t. hasTorrentKey (heap x t) tk) (wt_torrents (fst (webtorrent x))) \<noteq> None) =
             (\<exists>a \<in> set (s_torrents x). \<exists>c \<in> set (t_clients (heap x a)). torrentKey c = tk)"
    if "consistent x" for x
    using find_registered [OF that, of tk] by (auto simp: hasTorrentKey_iff)
  have some: "a \<in> set (s_torrents x) \<and> (\<exists>c \<in> set (t_clients (heap x a)). torrentKey c = tk)"
    if "consistent x"
      and "find (\<lambda>t. hasTorrentKey (heap x t) tk) (wt_torrents (fst (webtorrent x))) = Some a"
    for x a
    using that(2) unfolding engine_list_consistent [OF that(1)]
    by (auto simp: find_Some_iff hasTorrentKey_iff)
  have es6: "(\<exists>a. fst (getTorrentByKey_es6 x tk) = Inr a) =
             (find (\<lambda>t. hasTorrentKey (heap x t) tk) (wt_torrents (fst (webtorrent x))) \<noteq> None)"
    for x
    by (auto simp: getTorrentByKey_result(2) simp del: webtorrent_fields(7) split: option.splits)
  have kill: "(\<exists>a \<in> set (s_torrents (killClients s clientKeys)).
                 \<exists>c \<in> set (t_clients (heap (killClients s clientKeys) a)). torrentKey c = tk) =
              (\<exists>a \<in> set (s_torrents s). \<exists>c \<in> set (t_clients (heap s a)).
                 torrentKey c = tk \<and> \<not> dead_key (proto_heartbeat s) clientKeys (clientKey c))"
    if ne: "clientKeys \<noteq> []"
  proof -
    from assms have alive: "\<forall>a \<in> set (s_torrents s). \<not> t_destroyed (heap s a)"
      by (simp add: consistent_def)
    show ?thesis
      unfolding killClients_torrents [OF ne alive]
      by (auto simp: killClients_fields [OF ne] survivors_def filter_empty_conv)
  qed
  have 1: "(fst (getTorrentByKey s tk) \<noteq> None) =
        (\<exists>a \<in> set (s_torrents s). \<exists>c \<in> set (t_clients (heap s a)). torrentKey c = tk)"
    using iff [OF assms] by (simp add: getTorrentByKey_result(1) del: webtorrent_fields(7))
  have 2: "(\<exists>a. fst (getTorrentByKey_es6 s tk) = Inr a) =
        (\<exists>a \<in> set (s_torrents s). \<exists>c \<in> set (t_clients (heap s a)). torrentKey c = tk)"
    using iff [OF assms] by (simp add: es6 del: webtorrent_fields(7))
  have 3: "\<forall>a. fst (getTorrentByKey s tk) = Some a \<or> fst (getTorrentByKey_es6 s tk) = Inr a \<longrightarrow>
          a \<in> set (s_torrents s) \<and> (\<exists>c \<in> set (t_clients (heap s a)). torrentKey c = tk)"
    using some [OF assms]
    by (auto simp: getTorrentByKey_result simp del: webtorrent_fields(7) split: option.splits)
  have 4: "clientKeys \<noteq> [] \<longrightarrow>
        ((fst (getTorrentByKey (killClients s clientKeys) tk) \<noteq> None) =
        (\<exists>a \<in> set (s_torrents s). \<exists>c \<in> set (t_clients (heap s a)).
            torrentKey c = tk \<and> \<not> dead_key (proto_heartbeat s) clientKeys (clientKey c)))"
    using iff [OF killClients_consistent [OF assms], of clientKeys]
    by (simp add: getTorrentByKey_result(1) kill del: webtorrent_fields(7))
  have 5: "clientKeys \<noteq> [] \<longrightarrow>
        ((\<exists>a. fst (getTorrentByKey_es6 (killClients s clientKeys) tk) = Inr a) =
        (\<exists>a \<in> set (s_torrents s). \<exists>c \<in> set (t_clients (heap s a)).
            torrentKey c = tk \<and> \<not> dead_key (proto_heartbeat s) clientKeys (clientKey c)))"
    using iff [OF killClients_consistent [OF assms], of clientKeys]
    by (simp add: es6 kill del: webtorrent_fields(7))
  have 6: "\<forall>k \<in> set clientKeys. dead_key (proto_heartbeat s) clientKeys k"
    by (simp add: dead_key_def)
  from 1 2 3 4 5 6 show ?thesis by blast
qed

lemma shared_key_fields:
  "s_clients shared_key =
     [(''a'', \<lparr>c_clientKey = ''a'', heartbeat = 0\<rparr>), (''b'', \<lparr>c_clientKey = ''b'', heartbeat = 0\<rparr>)]"
  "s_torrents shared_key = [0]"
  "s_webtorrent shared_key = Some \<lparr>wt_torrents = [0]\<rparr>"
  "t_clients (heap shared_key 0) =
     [\<lparr>clientKey = ''a'', torrentKey = ''k1''\<rparr>, \<lparr>clientKey = ''b'', torrentKey = ''k1''\<rparr>]"
  "t_destroyed (heap shared_key 0) = False"
  "next_addr shared_key = 1"
  "proto_heartbeat shared_key = None"
  by (simp_all add: shared_key_def eval_defs)

lemma shared_key_consistent: "consistent shared_key"
  by (simp add: consistent_def shared_key_fields)

text \<open>
  With \<open>a\<close> on key \<open>k1\<close> and \<open>b\<close> on key \<open>k2\<close>: \<open>k2\<close> resolves, \<open>k9\<close> does not; once
  \<open>b\<close> is removed \<open>k2\<close> no longer resolves while \<open>k1\<close> does.
\<close>

theorem lookup_by_torrent_key_witness:
  "consistent two_clients \<and> [''b''] \<noteq> []
   \<and> fst (getTorrentByKey two_clients ''k2'') \<noteq> None
   \<and> fst (getTorrentByKey two_clients ''k9'') = None
   \<and> fst (getTorrentByKey (killClients two_clients [''b'']) ''k2'') = None
   \<and> fst (getTorrentByKey (killClients two_clients [''b'']) ''k1'') \<noteq> None
   \<and> fst (getTorrentByKey_es6 (killClients two_clients [''b'']) ''k2'') =
       Inl (Error ''Missing torrentKey: k2'')"
  using lookup_by_torrent_key [OF two_clients_consistent, of "''k2''" "[''b'']"]
    lookup_by_torrent_key [OF two_clients_consistent, of "''k9''" "[''b'']"]
    lookup_by_torrent_key [OF two_clients_consistent, of "''k1''" "[''b'']"]
  by (auto simp: two_clients_fields two_clients_consistent getTorrentByKey_result
      dead_key_def inherited_def simp del: webtorrent_fields(7) split: option.splits)

text \<open>
  C10 as stated fails where two clients chose the same torrent key: \<open>b\<close>'s subscription
  under \<open>k1\<close> is removed, and \<open>k1\<close> still resolves, through the subscription of \<open>a\<close>.
\<close>

theorem lookup_after_expiry_counterexample:
  "t_clients (heap shared_key 0) =
     [\<lparr>clientKey = ''a'', torrentKey = ''k1''\<rparr>, \<lparr>clientKey = ''b'', torrentKey = ''k1''\<rparr>]
   \<and> t_clients (heap (killClients shared_key [''b'']) 0) = [\<lparr>clientKey = ''a'', torrentKey = ''k1''\<rparr>]
   \<and> fst (getTorrentByKey (killClients shared_key [''b'']) ''k1'') = Some 0
   \<and> fst (getTorrentByKey_es6 (killClients shared_key [''b'']) ''k1'') = Inr 0"
proof -
  have ne: "[''b''] \<noteq> []" by simp
  have alive: "\<forall>a \<in> set (s_torrents shared_key). \<not> t_destroyed (heap shared_key a)"
    by (simp add: shared_key_fields)
  have tor: "s_torrents (killClients shared_key [''b'']) = [0]"
    by (simp add: killClients_torrents [OF ne alive] shared_key_fields survivors_def
        dead_key_def inherited_def)
  have wt: "s_webtorrent (killClients shared_key [''b'']) = Some \<lparr>wt_torrents = [0]\<rparr>"
    by (simp add: killClients_webtorrent [OF ne shared_key_consistent] tor)
  show ?thesis
    by (simp add: getTorrentByKey_result wt killClients_fields [OF ne] shared_key_fields
        survivors_def hasTorrentKey_def killed_def dead_key_def inherited_def)
qed

subsection \<open>Consistency is preserved\<close>

lemma joins_append [simp]: "joins (xs @ ys) = joins xs @ joins ys"
  by (induction xs) (simp_all split: effect.splits)

lemma joins_map_Send [simp]: "joins (map (\<lambda>c. Send (f c)) xs) = []"
  by (induction xs) simp_all

lemma registry_eq_iff:
  "registry s' = registry s \<longleftrightarrow>
     s_webtorrent s' = s_webtorrent s \<and> s_torrents s' = s_torrents s \<and>
     s_clients s' = s_clients s \<and> next_addr s' = next_addr s \<and>
     (\<forall>a. t_infoHash (heap s' a) = t_infoHash (heap s a) \<and>
          t_destroyed (heap s' a) = t_destroyed (heap s a) \<and>
          t_clients (heap s' a) = t_clients (heap s a))"
  by (auto simp: registry_def fun_eq_iff)

lemma consistent_registry:
  assumes "registry s' = registry s"
  shows "consistent s' = consistent s"
proof -
  from assms have f: "s_webtorrent s' = s_webtorrent s" "s_torrents s' = s_torrents s"
    "s_clients s' = s_clients s" "next_addr s' = next_addr s"
    "\<And>a. t_infoHash (heap s' a) = t_infoHash (heap s a)"
    "\<And>a. t_destroyed (heap s' a) = t_destroyed (heap s a)"
    "\<And>a. t_clients (heap s' a) = t_clients (heap s a)"
    by (simp_all add: registry_eq_iff)
  show ?thesis unfolding consistent_def by (simp add: f cong: option.case_cong)
qed

lemma registry_effects [simp]:
  "registry (s\<lparr>effects := es\<rparr>) = registry s"
  "registry (emit e s) = registry s"
  "registry (send om s) = registry s"
  "registry (trace_log d s) = registry s"
  "registry (sendSubscribed s t ck tk) = registry s"
  "registry (sendToTorrentClients s a om) = registry s"
  "registry (sendToAllClients s om) = registry s"
  "registry (quiet s) = registry s"
  by (simp_all add: registry_def step_defs sendToTorrentClients_eq sendToAllClients_eq quiet_def)

lemma registry_relays [simp]:
  "registry (sendInfo s a type) = registry s"
  "registry (sendInfo_es6 s a type) = registry s"
  "registry (sendProgress s a type) = registry s"
  "registry (sendError s ta e type) = registry s"
  by (simp_all add: sendInfo_def sendInfo_es6_def sendProgress_def sendError_def Let_def
      split: option.split)

lemma registry_fold_sendProgress [simp]:
  "registry (fold (\<lambda>torrent s. sendProgress s torrent type) xs s) = registry s"
  by (induction xs arbitrary: s) simp_all

lemma registry_callbacks [simp]:
  "registry (run_callback cb s) = registry s"
  "registry (fold run_callback cbs s) = registry s"
  "registry (createServer t cb s) = registry s"
  by (simp_all add: registry_def)

lemma registry_upd_torrent:
  assumes "\<And>t. t_infoHash (f t) = t_infoHash t" "\<And>t. t_destroyed (f t) = t_destroyed t"
    "\<And>t. t_clients (f t) = t_clients t"
  shows "registry (upd_torrent a f s) = registry s"
  using assms by (auto simp: registry_def upd_torrent_def fun_eq_iff)

lemma registry_engine_update [simp]:
  "registry (engine_update a nm len fs p s) = registry s"
  unfolding engine_update_def by (rule registry_upd_torrent) simp_all

lemma registry_upd_serverURL [simp]:
  "registry (upd_torrent a (\<lambda>t. t\<lparr>t_serverURL := u\<rparr>) s) = registry s"
  by (simp add: registry_def upd_torrent_def fun_eq_iff)

lemma registry_upd_pendingServerCallbacks [simp]:
  "registry (upd_torrent a (\<lambda>t. t\<lparr>t_pendingServerCallbacks := pc\<rparr>) s) = registry s"
  by (simp add: registry_def upd_torrent_def fun_eq_iff)

lemma registry_upd_pendingHttpClients [simp]:
  "registry (upd_torrent a (\<lambda>t. t\<lparr>t_pendingHttpClients := ph\<rparr>) s) = registry s"
  by (simp add: registry_def upd_torrent_def fun_eq_iff)

lemma listening_pending [simp]:
  "t_pendingServerCallbacks (heap (upd_torrent a (\<lambda>t. t\<lparr>t_serverURL := u\<rparr>) s) a) =
     t_pendingServerCallbacks (heap s a)"
  "t_pendingHttpClients (heap (upd_torrent a (\<lambda>t. t\<lparr>t_serverURL := u\<rparr>) s) a) =
     t_pendingHttpClients (heap s a)"
  by (simp_all add: upd_torrent_def)

lemma registry_listening [simp]:
  "registry (snd (listening a port s)) = registry s"
proof (cases "t_pendingServerCallbacks (heap s a)")
  case None
  then show ?thesis by (simp add: listening_def Let_def)
next
  case (Some cbs)
  then show ?thesis by (simp add: listening_def Let_def)
qed


lemma registry_listening_es6 [simp]:
  "registry (snd (listening_es6 a port s)) = registry s"
proof (cases "t_pendingHttpClients (heap s a)")
  case None
  then show ?thesis by (simp add: listening_es6_def Let_def)
next
  case (Some cs)
  then show ?thesis by (simp add: listening_es6_def Let_def fold_send)
qed

lemma registry_handleCreateServer [simp]:
  "registry (handleCreateServer s m) = registry (snd (webtorrent s))"
  "registry (snd (handleCreateServer_es6 s m)) = registry (snd (webtorrent s))"
  by (simp_all add: registry_def del: webtorrent_fields(7))

lemma webtorrent_consistent: "consistent s \<Longrightarrow> consistent (snd (webtorrent s))"
  by (auto simp: consistent_def split: option.splits)

lemma push_client_fields [simp]:
  "s_webtorrent (push_client t k s) = s_webtorrent s"
  "s_torrents (push_client t k s) = s_torrents s"
  "s_clients (push_client t k s) = s_clients s"
  "s_options (push_client t k s) = s_options s"
  "next_addr (push_client t k s) = next_addr s"
  "effects (push_client t k s) = effects s"
  "t_infoHash (heap (push_client t k s) a) = t_infoHash (heap s a)"
  "t_destroyed (heap (push_client t k s) a) = t_destroyed (heap s a)"
  "t_clients (heap (push_client t k s) a) =
     (if a = t then t_clients (heap s a) @ [k] else t_clients (heap s a))"
  by (simp_all add: push_client_def upd_torrent_def)

lemma push_client_consistent: "consistent s \<Longrightarrow> consistent (push_client t k s)"
  unfolding consistent_def by (simp cong: option.case_cong)

lemma handleHeartbeat_consistent: "consistent s \<Longrightarrow> consistent (handleHeartbeat now s m)"
proof -
  assume c: "consistent s"
  have u: "map fst (AList.update k v al) = map fst al" if "map_of al k = Some c"
    for k v c and al :: "(string \<times> client) list"
    using that by (induction al) (auto split: if_splits)
  show ?thesis
  proof (cases "clients_get s (clientKey m)")
    case (OwnEntry c')
    then have "map_of (s_clients s) (clientKey m) = Some c'"
      by (auto simp: clients_get_def split: option.splits if_splits)
    from u [OF this] c OwnEntry show ?thesis
      by (simp add: consistent_def handleHeartbeat_def cong: option.case_cong)
  qed (insert c, simp_all add: consistent_def handleHeartbeat_def emit_def
        cong: option.case_cong)
qed

lemma removeDeadClients_consistent:
  assumes "consistent s"
  shows "consistent (removeDeadClients now s timeout)"
    and "consistent (removeDeadClients_es6 now s timeout)"
proof -
  have q: "consistent (quiet x) = consistent x" for x
    by (rule consistent_registry) simp
  show "consistent (removeDeadClients now s timeout)"
    using q [of "removeDeadClients now s timeout"] q [of "killClients s (stale now timeout s)"]
      killClients_consistent [OF assms, of "stale now timeout s"]
    by (simp add: removeDeadClients_quiet)
  show "consistent (removeDeadClients_es6 now s timeout)"
    using q [of "removeDeadClients_es6 now s timeout"] q [of "killClients s (stale now timeout s)"]
      killClients_consistent [OF assms, of "stale now timeout s"]
    by (simp add: removeDeadClients_es6_quiet)
qed

lemma sendUpdates_consistent:
  assumes "consistent s"
  shows "consistent (sendUpdates now s)" and "consistent (sendUpdates_es6 now s)"
  using assms removeDeadClients_consistent [OF assms]
  by (simp_all add: sendUpdates_def sendUpdates_es6_def Let_def
      consistent_registry [OF registry_fold_sendProgress] split: option.split)

lemma handleDestroy_consistent: "consistent s \<Longrightarrow> consistent (handleDestroy s m)"
proof -
  assume c: "consistent s"
  have "consistent (trace_log d s)" for d
    using c consistent_registry [of "trace_log d s" s] by simp
  then show ?thesis
    by (simp add: handleDestroy_def Let_def killClients_consistent
        consistent_registry [OF registry_effects(2)])
qed

lemma consistent_effects [simp]:
  "consistent (s\<lparr>effects := es\<rparr>) = consistent s"
  "consistent (emit e s) = consistent s"
  "consistent (send om s) = consistent s"
  "consistent (trace_log d s) = consistent s"
  "consistent (sendSubscribed s t ck tk) = consistent s"
  "consistent (createServer a cb s) = consistent s"
  "consistent (sendInfo s a type) = consistent s"
  "consistent (sendInfo_es6 s a type) = consistent s"
  "consistent (sendProgress s a type) = consistent s"
  "consistent (sendError s ta ep type) = consistent s"
  "consistent (engine_update a nm len fs p s) = consistent s"
  "consistent (snd (listening a port s)) = consistent s"
  "consistent (snd (listening_es6 a port s)) = consistent s"
  by (rule consistent_registry, simp)+

lemma joins_effects [simp]:
  "joins (effects (emit e s)) = joins (effects s) @ (case e of WtAdd a \<Rightarrow> [a] | _ \<Rightarrow> [])"
  "joins (effects (send om s)) = joins (effects s)"
  "joins (effects (trace_log d s)) = joins (effects s)"
  "joins (effects (sendSubscribed s t ck tk)) = joins (effects s)"
  "joins (effects (run_callback cb s)) = joins (effects s)"
  "joins (effects (push_client a k s)) = joins (effects s)"
  "joins (effects (snd (webtorrent s))) = joins (effects s)"
  by (cases cb; simp add: step_defs webtorrent_def Let_def split: effect.splits option.split)+

lemma joins_createServer [simp]:
  "joins (effects (createServer a cb s)) = joins (effects s)"
  by (simp add: createServer_def upd_torrent_def emit_def split: option.split)

lemma find_infoHash_webtorrent [simp]:
  "find_infoHash (snd (webtorrent s)) ih xs = find_infoHash s ih xs"
  "find_infoHash (trace_log d s) ih xs = find_infoHash s ih xs"
  "find_infoHash (send om s) ih xs = find_infoHash s ih xs"
  by (simp_all add: find_infoHash_def step_defs)

lemma join_swarm_fields [simp]:
  "fst (join_swarm pt tid s) = next_addr s"
  "s_torrents (snd (join_swarm pt tid s)) = s_torrents s @ [next_addr s]"
  "s_webtorrent (snd (join_swarm pt tid s)) =
     map_option (\<lambda>wt. \<lparr>wt_torrents = wt_torrents wt @ [next_addr s]\<rparr>) (s_webtorrent s)"
  "next_addr (snd (join_swarm pt tid s)) = Suc (next_addr s)"
  "s_options (snd (join_swarm pt tid s)) = s_options s"
  "joins (effects (snd (join_swarm pt tid s))) = joins (effects s) @ [next_addr s]"
  "t_infoHash (heap (snd (join_swarm pt tid s)) a) =
     (if a = next_addr s
      then (case pt tid of Inl e \<Rightarrow> None | Inr p \<Rightarrow> pt_infoHash p)
      else t_infoHash (heap s a))"
  "t_destroyed (heap (snd (join_swarm pt tid s)) a) =
     (if a = next_addr s then False else t_destroyed (heap s a))"
  "t_clients (heap (snd (join_swarm pt tid s)) a) =
     (if a = next_addr s then [] else t_clients (heap s a))"
  by (cases "s_webtorrent s";
      simp add: join_swarm_def wt_add_def step_defs Let_def split_beta new_torrent_def
        wt_update_eq split: sum.split)+

lemma map_if_notin:
  "n \<notin> set xs \<Longrightarrow> map (\<lambda>a. if a = n then x else f a) xs = map f xs"
  by (induction xs) auto

lemma join_push_consistent:
  assumes "consistent s" and "s_webtorrent s \<noteq> None" and "pt tid = Inr p"
    and "find_infoHash s (pt_infoHash p) (s_torrents s) = None"
  shows "consistent (push_client (next_addr s) k (snd (join_swarm pt tid s)))"
proof -
  from assms(1) have n: "next_addr s \<notin> set (s_torrents s)"
    by (auto simp: consistent_def)
  from assms(4) have fresh: "pt_infoHash p \<notin> (\<lambda>a. t_infoHash (heap s a)) ` set (s_torrents s)"
    by (auto simp: find_infoHash_def find_None_iff)
  from assms(2) obtain wt where wt: "s_webtorrent s = Some wt" by auto
  show ?thesis
    using assms(1) n fresh
    by (auto simp: consistent_def wt assms(3) map_if_notin)
qed

lemma trace_log_fields [simp]:
  "s_webtorrent (trace_log d s) = s_webtorrent s"
  "s_torrents (trace_log d s) = s_torrents s"
  "s_clients (trace_log d s) = s_clients s"
  "s_options (trace_log d s) = s_options s"
  "next_addr (trace_log d s) = next_addr s"
  "heap (trace_log d s) = heap s"
  by (simp_all add: trace_log_def emit_def)

lemma send_fields [simp]:
  "s_webtorrent (send om s) = s_webtorrent s"
  "s_torrents (send om s) = s_torrents s"
  "s_clients (send om s) = s_clients s"
  "s_options (send om s) = s_options s"
  "next_addr (send om s) = next_addr s"
  "heap (send om s) = heap s"
  by (simp_all add: send_def emit_def)

lemma handleAddTorrent_throws:
  assumes "pt (m_torrentID m) = Inl e"
  shows "handleAddTorrent pt s m = (Some e, snd (webtorrent s))"
    and "handleAddTorrent_es6 pt s m = (Some e, snd (webtorrent s))"
  using assms
  by (simp_all add: handleAddTorrent_def handleAddTorrent_es6_def Let_def split_beta)

lemma handleAddTorrent_es6_found:
  assumes "pt (m_torrentID m) = Inr p"
    and "find_infoHash s (pt_infoHash p) (wt_torrents (fst (webtorrent s))) = Some t"
  shows "registry (snd (handleAddTorrent_es6 pt s m)) =
           registry (push_client t \<lparr>clientKey = clientKey m, torrentKey = torrentKey m\<rparr>
                       (snd (webtorrent s)))"
    and "joins (effects (snd (handleAddTorrent_es6 pt s m))) = joins (effects s)"
proof -
  obtain wt s1 where w: "webtorrent s = (wt, s1)" by (cases "webtorrent s")
  from assms(2) have f: "find_infoHash s1 (pt_infoHash p) (wt_torrents wt) = Some t"
    using find_infoHash_webtorrent(1) [of s] by (simp add: w del: webtorrent_fields(7))
  have r: "snd (handleAddTorrent_es6 pt s m) =
        addClient t (clientKey m) (torrentKey m)
          (send (assign_keys (getProgressMessage s1 t
                   (if Some (t_downloaded (heap s1 t)) = t_length (heap s1 t)
                    then ''done'' else ''update''))
                 \<lparr>clientKey = clientKey m, torrentKey = torrentKey m\<rparr>)
            (send (assign_keys (getInfoMessage_es6 s1 t ''metadata'')
                    \<lparr>clientKey = clientKey m, torrentKey = torrentKey m\<rparr>)
              (send (assign_keys (getInfoMessage_es6 s1 t ''infohash'')
                      \<lparr>clientKey = clientKey m, torrentKey = torrentKey m\<rparr>) s1)))"
    by (simp add: handleAddTorrent_es6_def w assms(1) f Let_def getInfoMessage_es6_def
        getProgressMessage_def)
  show "registry (snd (handleAddTorrent_es6 pt s m)) =
           registry (push_client t \<lparr>clientKey = clientKey m, torrentKey = torrentKey m\<rparr>
                       (snd (webtorrent s)))"
    by (simp add: r w addClient_def registry_eq_iff)
  show "joins (effects (snd (handleAddTorrent_es6 pt s m))) = joins (effects s)"
    using joins_effects(7) [of s] by (simp add: r w addClient_def)
qed


lemma handleAddTorrent_es6_new:
  assumes "pt (m_torrentID m) = Inr p"
    and "find_infoHash s (pt_infoHash p) (wt_torrents (fst (webtorrent s))) = None"
  shows "registry (snd (handleAddTorrent_es6 pt s m)) =
           registry (push_client (next_addr s) \<lparr>clientKey = clientKey m, torrentKey = torrentKey m\<rparr>
                       (snd (join_swarm pt (m_torrentID m) (snd (webtorrent s)))))"
    and "joins (effects (snd (handleAddTorrent_es6 pt s m))) = joins (effects s) @ [next_addr s]"
proof -
  obtain wt s1 where w: "webtorrent s = (wt, s1)" by (cases "webtorrent s")
  from assms(2) have f: "find_infoHash s1 (pt_infoHash p) (wt_torrents wt) = None"
    using find_infoHash_webtorrent(1) [of s] by (simp add: w del: webtorrent_fields(7))
  obtain j s2 where js: "join_swarm pt (m_torrentID m) s1 = (j, s2)"
    by (cases "join_swarm pt (m_torrentID m) s1")
  have n: "next_addr s1 = next_addr s" "joins (effects s1) = joins (effects s)"
    using webtorrent_fields(4) [of s] joins_effects(7) [of s] by (simp_all add: w)
  have j: "j = next_addr s"
    using join_swarm_fields(1) [of pt "m_torrentID m" s1] by (simp add: js n)
  have r: "snd (handleAddTorrent_es6 pt s m) = addClient j (clientKey m) (torrentKey m) s2"
    by (simp add: handleAddTorrent_es6_def w assms(1) f js Let_def)
  show "registry (snd (handleAddTorrent_es6 pt s m)) =
           registry (push_client (next_addr s) \<lparr>clientKey = clientKey m, torrentKey = torrentKey m\<rparr>
                       (snd (join_swarm pt (m_torrentID m) (snd (webtorrent s)))))"
    by (simp add: r w js j addClient_def)
  show "joins (effects (snd (handleAddTorrent_es6 pt s m))) = joins (effects s) @ [next_addr s]"
    using join_swarm_fields(6) [of pt "m_torrentID m" s1]
    by (simp add: r js n addClient_def)
qed

lemma handleAddTorrent_found:
  assumes "pt (m_torrentID m) = Inr p"
    and "find_infoHash s (pt_infoHash p) (wt_torrents (fst (webtorrent s))) = Some t"
  shows "registry (snd (handleAddTorrent pt s m)) =
           registry (push_client t \<lparr>clientKey = clientKey m, torrentKey = torrentKey m\<rparr>
                       (snd (webtorrent s)))"
    and "joins (effects (snd (handleAddTorrent pt s m))) = joins (effects s)"
proof -
  obtain wt s1 where w: "webtorrent s = (wt, s1)" by (cases "webtorrent s")
  from assms(2) have f: "find_infoHash s1 (pt_infoHash p) (wt_torrents wt) = Some t"
    using find_infoHash_webtorrent(1) [of s] by (simp add: w del: webtorrent_fields(7))
  define s3 where "s3 = push_client t \<lparr>clientKey = clientKey m, torrentKey = torrentKey m\<rparr> s1"
  have r: "snd (handleAddTorrent pt s m) =
        (case m_options m of
           None \<Rightarrow> s3
         | Some options \<Rightarrow>
             if o_server options
             then createServer t (RespondCb t (clientKey m) (torrentKey m)) s3
             else sendSubscribed s3 (Some t) (clientKey m) (torrentKey m))"
    by (simp add: handleAddTorrent_def w assms(1) f Let_def s3_def split: option.split)
  have j1: "joins (effects s1) = joins (effects s)"
    using joins_effects(7) [of s] by (simp add: w)
  show "registry (snd (handleAddTorrent pt s m)) =
           registry (push_client t \<lparr>clientKey = clientKey m, torrentKey = torrentKey m\<rparr>
                       (snd (webtorrent s)))"
    by (simp add: r w s3_def split: option.split)
  show "joins (effects (snd (handleAddTorrent pt s m))) = joins (effects s)"
    by (simp add: r s3_def j1 split: option.split)
qed

lemma handleAddTorrent_new:
  assumes "pt (m_torrentID m) = Inr p"
    and "find_infoHash s (pt_infoHash p) (wt_torrents (fst (webtorrent s))) = None"
  shows "registry (snd (handleAddTorrent pt s m)) =
           registry (push_client (next_addr s) \<lparr>clientKey = clientKey m, torrentKey = torrentKey m\<rparr>
                       (snd (join_swarm pt (m_torrentID m) (snd (webtorrent s)))))"
    and "joins (effects (snd (handleAddTorrent pt s m))) = joins (effects s) @ [next_addr s]"
proof -
  obtain wt s1 where w: "webtorrent s = (wt, s1)" by (cases "webtorrent s")
  from assms(2) have f: "find_infoHash s1 (pt_infoHash p) (wt_torrents wt) = None"
    using find_infoHash_webtorrent(1) [of s] by (simp add: w del: webtorrent_fields(7))
  define s1' where "s1' = trace_log (JoiningSwarm (pt_infoHash p) (pt_name p)) s1"
  obtain j s2 where js: "join_swarm pt (m_torrentID m) s1' = (j, s2)"
    by (cases "join_swarm pt (m_torrentID m) s1'")
  have n: "next_addr s1 = next_addr s" "joins (effects s1) = joins (effects s)"
    using webtorrent_fields(4) [of s] joins_effects(7) [of s] by (simp_all add: w)
  have n': "next_addr s1' = next_addr s" "joins (effects s1') = joins (effects s)"
    by (simp_all add: s1'_def n)
  have j: "j = next_addr s"
    using join_swarm_fields(1) [of pt "m_torrentID m" s1'] by (simp add: js n')
  define s3 where "s3 = push_client j \<lparr>clientKey = clientKey m, torrentKey = torrentKey m\<rparr> s2"
  have r: "snd (handleAddTorrent pt s m) =
        (case m_options m of
           None \<Rightarrow> s3
         | Some options \<Rightarrow>
             if o_server options
             then createServer j (RespondCb j (clientKey m) (torrentKey m)) s3
             else sendSubscribed s3 (Some j) (clientKey m) (torrentKey m))"
    using js
    by (simp add: handleAddTorrent_def w assms(1) f Let_def s3_def s1'_def split: option.split)
  have "registry (snd (join_swarm pt (m_torrentID m) s1')) =
        registry (snd (join_swarm pt (m_torrentID m) s1))"
    by (simp add: registry_eq_iff s1'_def)
  then have reg: "registry s2 = registry (snd (join_swarm pt (m_torrentID m) s1))"
    by (simp add: js)
  have "registry s3 =
        registry (push_client j \<lparr>clientKey = clientKey m, torrentKey = torrentKey m\<rparr>
                    (snd (join_swarm pt (m_torrentID m) s1)))"
    using reg by (simp add: registry_eq_iff s3_def)
  then show "registry (snd (handleAddTorrent pt s m)) =
           registry (push_client (next_addr s) \<lparr>clientKey = clientKey m, torrentKey = torrentKey m\<rparr>
                       (snd (join_swarm pt (m_torrentID m) (snd (webtorrent s)))))"
    by (simp add: r w j split: option.split)
  have "joins (effects s2) = joins (effects s) @ [next_addr s]"
    using join_swarm_fields(6) [of pt "m_torrentID m" s1'] by (simp add: js n')
  then show "joins (effects (snd (handleAddTorrent pt s m))) = joins (effects s) @ [next_addr s]"
    by (simp add: r s3_def split: option.split)
qed

lemma handleAddTorrent_consistent:
  assumes "consistent s"
  shows "consistent (snd (handleAddTorrent pt s m))"
    and "consistent (snd (handleAddTorrent_es6 pt s m))"
proof -
  let ?k = "\<lparr>clientKey = clientKey m, torrentKey = torrentKey m\<rparr>"
  let ?s1 = "snd (webtorrent s)"
  have c1: "consistent ?s1" using assms by (rule webtorrent_consistent)
  have both: "consistent (snd (handleAddTorrent pt s m)) \<and>
              consistent (snd (handleAddTorrent_es6 pt s m))"
  proof (cases "pt (m_torrentID m)")
    case (Inl e)
    then show ?thesis using c1 by (simp add: handleAddTorrent_throws)
  next
    case (Inr p)
    show ?thesis
    proof (cases "find_infoHash s (pt_infoHash p) (wt_torrents (fst (webtorrent s)))")
      case (Some t)
      have "consistent (push_client t ?k ?s1)" using c1 by (rule push_client_consistent)
      then show ?thesis
        by (simp add: consistent_registry [OF handleAddTorrent_found(1) [where pt = pt and m = m, OF Inr Some]]
            consistent_registry [OF handleAddTorrent_es6_found(1) [where pt = pt and m = m, OF Inr Some]])
    next
      case None
      have e: "s_webtorrent ?s1 \<noteq> None" by simp
      have f: "find_infoHash ?s1 (pt_infoHash p) (s_torrents ?s1) = None"
        using None engine_list_consistent [OF assms] by (simp del: webtorrent_fields(7))
      have "consistent (push_client (next_addr ?s1) ?k (snd (join_swarm pt (m_torrentID m) ?s1)))"
        using c1 e Inr f by (rule join_push_consistent)
      then show ?thesis
        by (simp add: consistent_registry [OF handleAddTorrent_new(1) [where pt = pt and m = m, OF Inr None]]
            consistent_registry [OF handleAddTorrent_es6_new(1) [where pt = pt and m = m, OF Inr None]])
    qed
  qed
  from both show "consistent (snd (handleAddTorrent pt s m))" by simp
  from both show "consistent (snd (handleAddTorrent_es6 pt s m))" by simp
qed

lemma handleSubscribe_consistent:
  assumes "consistent s"
  shows "consistent (snd (handleSubscribe pt s m))"
    and "consistent (snd (handleSubscribe_es6 pt s m))"
  using assms
  by (simp_all add: handleSubscribe_def handleSubscribe_es6_def Let_def addClient_def
      push_client_consistent split: sum.split option.split)

lemma handleCreateServer_consistent:
  assumes "consistent s"
  shows "consistent (handleCreateServer s m)"
    and "consistent (snd (handleCreateServer_es6 s m))"
  using webtorrent_consistent [OF assms]
  by (simp_all add: consistent_registry [OF registry_handleCreateServer(1)]
      consistent_registry [OF registry_handleCreateServer(2)])

lemma receive_consistent:
  assumes "consistent s"
  shows "consistent (snd (receive pt now s m))"
    and "consistent (snd (receive_es6 pt now s m))"
  using touch_client_consistent [OF assms, of now True "clientKey m"]
    touch_client_consistent [OF assms, of now False "clientKey m"]
  by (simp_all add: receive_def receive_es6_def Let_def handleSubscribe_consistent
      handleAddTorrent_consistent handleCreateServer_consistent handleHeartbeat_consistent
      handleDestroy_consistent)

lemma constructed_consistent: "consistent (WebTorrentRemoteServer options)"
  by (simp add: WebTorrentRemoteServer_def consistent_def emit_def Let_def)

lemma reachable_consistent: "reachable v pt s \<Longrightarrow> consistent s"
  by (induction rule: reachable.induct)
     (simp_all add: constructed_consistent receive_consistent sendUpdates_consistent
       killClients_consistent)

lemma attaches_or_joinsI:
  assumes "consistent s"
    and found: "\<And>t. find_infoHash s ih (wt_torrents (fst (webtorrent s))) = Some t \<Longrightarrow>
            registry s' = registry (push_client t k (snd (webtorrent s))) \<and>
            joins (effects s') = joins (effects s)"
    and new: "find_infoHash s ih (wt_torrents (fst (webtorrent s))) = None \<Longrightarrow>
            registry s' = registry (push_client (next_addr s) k
                                      (snd (join_swarm pt tid (snd (webtorrent s))))) \<and>
            joins (effects s') = joins (effects s) @ [next_addr s]"
    and parse: "pt tid = Inr p" "pt_infoHash p = ih"
  shows "attaches_or_joins s s' ih k"
proof (cases "find_infoHash s ih (wt_torrents (fst (webtorrent s)))")
  case None
  then have f: "find (\<lambda>a. t_infoHash (heap s a) = ih) (s_torrents s) = None"
    using engine_list_consistent [OF assms(1)]
    by (simp add: find_infoHash_def del: webtorrent_fields(7))
  from new [OF None] show ?thesis
    by (simp add: attaches_or_joins_def f registry_eq_iff parse)
next
  case (Some t)
  then have f: "find (\<lambda>a. t_infoHash (heap s a) = ih) (s_torrents s) = Some t"
    using engine_list_consistent [OF assms(1)]
    by (simp add: find_infoHash_def del: webtorrent_fields(7))
  from found [OF Some] show ?thesis
    by (simp add: attaches_or_joins_def f registry_eq_iff)
qed

text \<open>
  C2. In every reachable state of either file no two registered swarms have the same info
  hash. Handling an \<^verbatim>\<open>add-torrent\<close> message whose identifier parses: if a registered swarm
  has the parsed info hash, the subscription (client key, torrent key) is appended to that
  swarm's subscribers, the swarm registry is unchanged and the engine is not asked to
  join; only if no registered swarm has it is the engine asked to join, exactly once, and
  the new swarm is registered with that subscription as its only one. In both branches the
  subscribers of every other torrent are unchanged, so exactly one subscription is added;
  and afterwards the info hashes of the registered swarms are still pairwise distinct.
\<close>

theorem one_swarm_per_infoHash:
  assumes "reachable v parseTorrent s" and "parseTorrent (m_torrentID m) = Inr p"
  shows
    "distinct (map (\<lambda>a. t_infoHash (heap s a)) (s_torrents s))
     \<and> attaches_or_joins s (snd (handleAddTorrent parseTorrent s m)) (pt_infoHash p)
         \<lparr>clientKey = clientKey m, torrentKey = torrentKey m\<rparr>
     \<and> attaches_or_joins s (snd (handleAddTorrent_es6 parseTorrent s m)) (pt_infoHash p)
         \<lparr>clientKey = clientKey m, torrentKey = torrentKey m\<rparr>
     \<and> distinct (map (\<lambda>a. t_infoHash (heap (snd (handleAddTorrent parseTorrent s m)) a))
                   (s_torrents (snd (handleAddTorrent parseTorrent s m))))
     \<and> distinct (map (\<lambda>a. t_infoHash (heap (snd (handleAddTorrent_es6 parseTorrent s m)) a))
                   (s_torrents (snd (handleAddTorrent_es6 parseTorrent s m))))"
proof -
  from assms(1) have c: "consistent s" by (rule reachable_consistent)
  have 1: "distinct (map (\<lambda>a. t_infoHash (heap s a)) (s_torrents s))"
    using c by (simp add: consistent_def)
  have 2: "attaches_or_joins s (snd (handleAddTorrent parseTorrent s m)) (pt_infoHash p)
             \<lparr>clientKey = clientKey m, torrentKey = torrentKey m\<rparr>"
    using c
  proof (rule attaches_or_joinsI [where pt = parseTorrent and tid = "m_torrentID m" and p = p])
    show "parseTorrent (m_torrentID m) = Inr p" by (rule assms(2))
  qed (simp_all add: handleAddTorrent_found [where pt = parseTorrent and m = m, OF assms(2)]
        handleAddTorrent_new [where pt = parseTorrent and m = m, OF assms(2)]
        del: webtorrent_fields(7))
  have 3: "attaches_or_joins s (snd (handleAddTorrent_es6 parseTorrent s m)) (pt_infoHash p)
             \<lparr>clientKey = clientKey m, torrentKey = torrentKey m\<rparr>"
    using c
  proof (rule attaches_or_joinsI [where pt = parseTorrent and tid = "m_torrentID m" and p = p])
    show "parseTorrent (m_torrentID m) = Inr p" by (rule assms(2))
  qed (simp_all add: handleAddTorrent_es6_found [where pt = parseTorrent and m = m, OF assms(2)]
        handleAddTorrent_es6_new [where pt = parseTorrent and m = m, OF assms(2)]
        del: webtorrent_fields(7))
  have 4: "distinct (map (\<lambda>a. t_infoHash (heap (snd (handleAddTorrent parseTorrent s m)) a))
                   (s_torrents (snd (handleAddTorrent parseTorrent s m))))"
    using handleAddTorrent_consistent(1) [OF c, of parseTorrent m] by (simp add: consistent_def)
  have 5: "distinct (map (\<lambda>a. t_infoHash (heap (snd (handleAddTorrent_es6 parseTorrent s m)) a))
                   (s_torrents (snd (handleAddTorrent_es6 parseTorrent s m))))"
    using handleAddTorrent_consistent(2) [OF c, of parseTorrent m] by (simp add: consistent_def)
  from 1 2 3 4 5 show ?thesis by blast
qed

lemma one_client_fields:
  "s_clients one_client = [(''a'', \<lparr>c_clientKey = ''a'', heartbeat = 0\<rparr>)]"
  "s_torrents one_client = [0]"
  "s_webtorrent one_client = Some \<lparr>wt_torrents = [0]\<rparr>"
  "next_addr one_client = 1"
  "t_clients (heap one_client 0) = [\<lparr>clientKey = ''a'', torrentKey = ''k1''\<rparr>]"
  "t_infoHash (heap one_client 0) = Some hashX"
  "joins (effects one_client) = [0]"
  by (simp_all add: one_client_def eval_defs)

lemma one_client_reachable: "reachable Part000 parse_hex one_client"
  unfolding one_client_def by (rule reachable.received [OF reachable.constructed refl])

lemma msg_fields [simp]:
  "clientKey (msg type ck tk tid) = ck"
  "torrentKey (msg type ck tk tid) = tk"
  "m_type (msg type ck tk tid) = type"
  "m_torrentID (msg type ck tk tid) = tid"
  "m_options (msg type ck tk tid) = Some \<lparr>o_server = False, o_delay = None\<rparr>"
  by (simp_all add: msg_def)

lemma hashX_neq_hashY [simp]: "hashX \<noteq> hashY"
  by (simp add: hashX_def hashY_def)

text \<open>
  After \<open>a\<close> joined \<open>hashX\<close>: \<open>b\<close> adding \<open>hashX\<close> is attached to swarm 0 without a
  second join; \<open>b\<close> adding \<open>hashY\<close> makes the engine join once more, as swarm 1.
\<close>

theorem one_swarm_per_infoHash_witness:
  "reachable Part000 parse_hex one_client
   \<and> parse_hex (Some hashX) = Inr \<lparr>pt_infoHash = Some hashX, pt_name = None\<rparr>
   \<and> s_torrents (snd (handleAddTorrent parse_hex one_client
        (msg ''add-torrent'' ''b'' ''k2'' (Some hashX)))) = [0]
   \<and> joins (effects (snd (handleAddTorrent parse_hex one_client
        (msg ''add-torrent'' ''b'' ''k2'' (Some hashX))))) = [0]
   \<and> t_clients (heap (snd (handleAddTorrent parse_hex one_client
        (msg ''add-torrent'' ''b'' ''k2'' (Some hashX)))) 0) =
       [\<lparr>clientKey = ''a'', torrentKey = ''k1''\<rparr>, \<lparr>clientKey = ''b'', torrentKey = ''k2''\<rparr>]
   \<and> s_torrents (snd (handleAddTorrent_es6 parse_hex one_client
        (msg ''add-torrent'' ''b'' ''k2'' (Some hashY)))) = [0, 1]
   \<and> joins (effects (snd (handleAddTorrent_es6 parse_hex one_client
        (msg ''add-torrent'' ''b'' ''k2'' (Some hashY))))) = [0, 1]
   \<and> t_clients (heap (snd (handleAddTorrent_es6 parse_hex one_client
        (msg ''add-torrent'' ''b'' ''k2'' (Some hashY)))) 1) =
       [\<lparr>clientKey = ''b'', torrentKey = ''k2''\<rparr>]"
proof -
  have pX: "parse_hex (m_torrentID (msg ''add-torrent'' ''b'' ''k2'' (Some hashX))) =
              Inr \<lparr>pt_infoHash = Some hashX, pt_name = None\<rparr>"
    and pY: "parse_hex (m_torrentID (msg ''add-torrent'' ''b'' ''k2'' (Some hashY))) =
              Inr \<lparr>pt_infoHash = Some hashY, pt_name = None\<rparr>"
    by (simp_all add: parse_hex_def)
  have p: "parse_hex (Some hashX) = Inr \<lparr>pt_infoHash = Some hashX, pt_name = None\<rparr>"
    by (simp add: parse_hex_def)
  show ?thesis
    using one_swarm_per_infoHash [OF one_client_reachable pX]
      one_swarm_per_infoHash [OF one_client_reachable pY]
    by (simp add: attaches_or_joins_def one_client_fields one_client_reachable p
        hashX_neq_hashY)
qed

end
